theory Spec2Isabelle
  imports Main
begin

section \<open>Values shared by the three scripts\<close>

text \<open>
  The three scripts (\<^verbatim>\<open>mark_not_spam_evm.py\<close>, \<^verbatim>\<open>mark_not_spam_solana.py\<close>,
  \<^verbatim>\<open>run.py\<close>) read rows of a CSV file and, per row, POST to a resolution endpoint
  (\<^verbatim>\<open>/api/v1/assets/asset-infos\<close>) and to a mutation endpoint.

  A value produced by \<^verbatim>\<open>response.json()\<close> is a Python object built from JSON; Python's
  \<^verbatim>\<open>None\<close> is \<open>JNull\<close>. A JSON object is the list of its items (keys distinct, as in
  any Python dict). Numbers are integers here; in every test the scripts make (truth
  value, \<^verbatim>\<open>.get\<close>, \<^verbatim>\<open>len\<close>) a float behaves as an integer does.
\<close>

datatype json =
    JNull
  | JBool bool
  | JNum int
  | JStr string
  | JArr "json list"
  | JObj "(string \<times> json) list"

text \<open>Python's truth value of an object, as tested by \<^verbatim>\<open>if not x\<close>.\<close>

fun truthy :: "json \<Rightarrow> bool" where
  "truthy JNull = False"
| "truthy (JBool b) = b"
| "truthy (JNum n) = (n \<noteq> 0)"
| "truthy (JStr s) = (s \<noteq> [])"
| "truthy (JArr xs) = (xs \<noteq> [])"
| "truthy (JObj kvs) = (kvs \<noteq> [])"

text \<open>The exceptions that nothing in the scripts catches.\<close>

datatype py_exception = AttributeError | TypeError | KeyError

text \<open>
  \<^verbatim>\<open>x.get(key)\<close> and \<^verbatim>\<open>x.get(key, default)\<close>: only a dict has the method; on any other
  object the attribute lookup raises \<^verbatim>\<open>AttributeError\<close>.
\<close>

fun json_get :: "json \<Rightarrow> string \<Rightarrow> json \<Rightarrow> py_exception + json" where
  "json_get (JObj kvs) key dflt =
     (case map_of kvs key of None \<Rightarrow> Inr dflt | Some v \<Rightarrow> Inr v)"
| "json_get _ key dflt = Inl AttributeError"

text \<open>
  \<^verbatim>\<open>len(x)\<close> followed by \<^verbatim>\<open>x[:600]\<close>, as \<^verbatim>\<open>run.py\<close> applies them to the \<^verbatim>\<open>stdout\<close>
  field: a string and a list have both; a dict has a length but cannot be sliced
  (\<^verbatim>\<open>TypeError\<close>; a \<^verbatim>\<open>KeyError\<close> from Python 3.12 on, uncaught all the same); the
  other objects have no length.
\<close>

fun len_and_slice :: "json \<Rightarrow> py_exception + unit" where
  "len_and_slice (JStr s) = Inr ()"
| "len_and_slice (JArr xs) = Inr ()"
| "len_and_slice _ = Inl TypeError"

text \<open>
  A row of \<^verbatim>\<open>csv.DictReader\<close>: column name to cell. A cell is a string, or \<^verbatim>\<open>None\<close>
  where the line is shorter than the header (the reader fills the missing cells with
  \<^verbatim>\<open>None\<close>). \<^verbatim>\<open>row.get(k, '')\<close> is \<open>row_get\<close>: the empty string when the file has no
  such column, otherwise the cell, \<^verbatim>\<open>None\<close> included. \<^verbatim>\<open>x.strip()\<close> is \<open>py_strip\<close>:
  on \<^verbatim>\<open>None\<close> the attribute lookup raises \<^verbatim>\<open>AttributeError\<close>. A character stands for
  the code point of the same number, so \<open>isspace\<close> lists the code points below 256 that
  \<^verbatim>\<open>str.isspace\<close> accepts, and \<open>strip\<close> is \<^verbatim>\<open>str.strip()\<close> on a string.
\<close>

type_synonym row = "string \<rightharpoonup> string option"

definition row_get :: "row \<Rightarrow> string \<Rightarrow> string option" where
  "row_get row key = (case row key of None \<Rightarrow> Some [] | Some cell \<Rightarrow> cell)"

definition isspace :: "char \<Rightarrow> bool" where
  "isspace c = ((of_char c :: nat) \<in> {9, 10, 11, 12, 13, 28, 29, 30, 31, 32, 133, 160})"

definition strip :: "string \<Rightarrow> string" where
  "strip s = rev (dropWhile isspace (rev (dropWhile isspace s)))"

fun py_strip :: "string option \<Rightarrow> py_exception + string" where
  "py_strip None = Inl AttributeError"
| "py_strip (Some s) = Inr (strip s)"

section \<open>The remote service and the requests sent to it\<close>

text \<open>
  What \<^verbatim>\<open>requests.post\<close> gives back: either it raises a
  \<^verbatim>\<open>RequestException\<close> before any response exists (connection error, timeout), or
  there is a response with a status code and a body; the body is \<open>None\<close> when
  \<^verbatim>\<open>response.json()\<close> cannot decode it (\<^verbatim>\<open>requests.exceptions.JSONDecodeError\<close>, a
  \<^verbatim>\<open>RequestException\<close>).
\<close>

datatype http_reply = ConnectionFailed | Reply nat "json option"

text \<open>
  The service is whatever it answers: the reply to the n-th POST to the resolution
  endpoint and the reply to the n-th POST to the mutation endpoint (counted from 0,
  per endpoint). Any sequence of per-call results is one such pair of functions.
\<close>

record service =
  asset_infos_reply :: "nat \<Rightarrow> http_reply"
  mutation_reply :: "nat \<Rightarrow> http_reply"

text \<open>The payload of a POST to the mutation endpoint.\<close>

datatype mutation =
    MarkAsSpam json
  | UpdatePrice json string bool

text \<open>
  Everything sent so far: the (chain, address) of each POST to the resolution endpoint
  and the payload of each POST to the mutation endpoint, oldest first.
\<close>

record traffic =
  asset_infos_posts :: "(string \<times> string) list"
  mutation_posts :: "mutation list"

definition no_traffic :: traffic where
  "no_traffic = \<lparr>asset_infos_posts = [], mutation_posts = []\<rparr>"

definition post_asset_infos :: "service \<Rightarrow> string \<Rightarrow> string \<Rightarrow> traffic \<Rightarrow> http_reply \<times> traffic" where
  "post_asset_infos srv chain address tr =
     (asset_infos_reply srv (length (asset_infos_posts tr)),
      tr\<lparr>asset_infos_posts := asset_infos_posts tr @ [(chain, address)]\<rparr>)"

definition post_mutation :: "service \<Rightarrow> mutation \<Rightarrow> traffic \<Rightarrow> http_reply \<times> traffic" where
  "post_mutation srv m tr =
     (mutation_reply srv (length (mutation_posts tr)),
      tr\<lparr>mutation_posts := mutation_posts tr @ [m]\<rparr>)"

text \<open>\<^verbatim>\<open>response.raise_for_status()\<close> raises for the statuses 400 to 599.\<close>

definition raise_for_status :: "nat \<Rightarrow> bool" where
  "raise_for_status status = (400 \<le> status \<and> status < 600)"

text \<open>
  The body of \<^verbatim>\<open>get_asset_info\<close> and of \<^verbatim>\<open>update_asset_price\<close> after the POST:
  \<^verbatim>\<open>try: response.raise_for_status(); return response.json()\<close>
  \<^verbatim>\<open>except RequestException: return None\<close>.
\<close>

fun json_or_none :: "http_reply \<Rightarrow> json" where
  "json_or_none ConnectionFailed = JNull"
| "json_or_none (Reply status body) =
     (if raise_for_status status then JNull
      else case body of None \<Rightarrow> JNull | Some j \<Rightarrow> j)"

text \<open>
  The body of \<^verbatim>\<open>mark_asset_not_spam\<close> after the POST: \<^verbatim>\<open>True\<close> for status 200,
  \<^verbatim>\<open>False\<close> for any other status and for every \<^verbatim>\<open>RequestException\<close>.
\<close>

fun ok_200 :: "http_reply \<Rightarrow> bool" where
  "ok_200 ConnectionFailed = False"
| "ok_200 (Reply status body) =
     (if raise_for_status status then False else status = 200)"

text \<open>
  A \<^verbatim>\<open>for\<close> loop whose body may raise: the loop stops at the first exception, which
  nothing catches. The traffic sent up to that point stays sent.
\<close>

type_synonym 's outcome = "(py_exception + 's) \<times> traffic"

fun for_each :: "('a \<Rightarrow> 's \<Rightarrow> traffic \<Rightarrow> 's outcome) \<Rightarrow> 'a list \<Rightarrow> 's \<Rightarrow> traffic \<Rightarrow> 's outcome" where
  "for_each body [] st tr = (Inr st, tr)"
| "for_each body (x # xs) st tr =
     (case body x st tr of
        (Inl e, tr') \<Rightarrow> (Inl e, tr')
      | (Inr st', tr') \<Rightarrow> for_each body xs st' tr')"

section \<open>mark_not_spam_evm.py\<close>

record chain_stats =
  success :: nat
  failed :: nat
  not_found :: nat

record evm_stats =
  total_rows :: nat
  skipped :: nat
  processed_chains :: nat
  failed_chains :: nat
  by_chain :: "string \<rightharpoonup> chain_stats"

definition get_asset_info :: "service \<Rightarrow> string \<Rightarrow> string \<Rightarrow> traffic \<Rightarrow> json \<times> traffic" where
  "get_asset_info srv evm_address chain tr =
     (case post_asset_infos srv chain evm_address tr of (r, tr') \<Rightarrow> (json_or_none r, tr'))"

definition mark_asset_not_spam :: "service \<Rightarrow> json \<Rightarrow> traffic \<Rightarrow> bool \<times> traffic" where
  "mark_asset_not_spam srv asset_id tr =
     (case post_mutation srv (MarkAsSpam asset_id) tr of (r, tr') \<Rightarrow> (ok_200 r, tr'))"

text \<open>
  \<^verbatim>\<open>stats["by_chain"][chain][field] += 1\<close>: the lookup of \<^verbatim>\<open>chain\<close> raises
  \<^verbatim>\<open>KeyError\<close> when the dict has no such key.
\<close>

definition by_chain_add :: "string \<Rightarrow> (chain_stats \<Rightarrow> chain_stats) \<Rightarrow> evm_stats \<Rightarrow> py_exception + evm_stats" where
  "by_chain_add chain f stats =
     (case by_chain stats chain of
        None \<Rightarrow> Inl KeyError
      | Some cs \<Rightarrow> Inr (stats\<lparr>by_chain := (by_chain stats)(chain \<mapsto> f cs)\<rparr>))"

definition count_not_found :: "string \<Rightarrow> evm_stats \<Rightarrow> py_exception + evm_stats" where
  "count_not_found chain stats =
     by_chain_add chain (\<lambda>cs. cs\<lparr>not_found := not_found cs + 1\<rparr>) stats"

definition count_failed :: "string \<Rightarrow> evm_stats \<Rightarrow> py_exception + evm_stats" where
  "count_failed chain stats =
     (case by_chain_add chain (\<lambda>cs. cs\<lparr>failed := failed cs + 1\<rparr>) stats of
        Inl e \<Rightarrow> Inl e
      | Inr stats' \<Rightarrow> Inr (stats'\<lparr>failed_chains := failed_chains stats' + 1\<rparr>))"

definition count_success :: "string \<Rightarrow> evm_stats \<Rightarrow> py_exception + evm_stats" where
  "count_success chain stats =
     (case by_chain_add chain (\<lambda>cs. cs\<lparr>success := success cs + 1\<rparr>) stats of
        Inl e \<Rightarrow> Inl e
      | Inr stats' \<Rightarrow> Inr (stats'\<lparr>processed_chains := processed_chains stats' + 1\<rparr>))"

text \<open>The body of \<^verbatim>\<open>for chain in EVM_CHAINS\<close> (lines 157 to 197).\<close>

definition process_chain :: "service \<Rightarrow> bool \<Rightarrow> string \<Rightarrow> string \<Rightarrow> evm_stats \<Rightarrow> traffic \<Rightarrow> evm_stats outcome" where
  "process_chain srv dry_run evm_address chain stats tr =
     (case get_asset_info srv evm_address chain tr of
        (asset_info, tr1) \<Rightarrow>
          if \<not> truthy asset_info then (count_not_found chain stats, tr1)
          else
            (case json_get asset_info ''id'' JNull of
               Inl e \<Rightarrow> (Inl e, tr1)
             | Inr asset_id \<Rightarrow>
                 if \<not> truthy asset_id then (count_failed chain stats, tr1)
                 else if \<not> dry_run then
                   (case mark_asset_not_spam srv asset_id tr1 of
                      (ok, tr2) \<Rightarrow>
                        if ok then (count_success chain stats, tr2)
                        else (count_failed chain stats, tr2))
                 else (count_success chain stats, tr1)))"

text \<open>
  The body of \<^verbatim>\<open>for row_num, row in enumerate(reader, start=2)\<close> (lines 137 to 201).
  The three cells are read and stripped, in the order of lines 138 to 140, before the
  check of line 143.
\<close>

definition process_row :: "service \<Rightarrow> string list \<Rightarrow> bool \<Rightarrow> row \<Rightarrow> evm_stats \<Rightarrow> traffic \<Rightarrow> evm_stats outcome" where
  "process_row srv evm_chains dry_run row stats tr =
     (case py_strip (row_get row ''Product name'') of
        Inl e \<Rightarrow> (Inl e, tr)
      | Inr product_name \<Rightarrow>
          (case py_strip (row_get row ''Token Symbol'') of
             Inl e \<Rightarrow> (Inl e, tr)
           | Inr token_symbol \<Rightarrow>
               (case py_strip (row_get row ''EVM address'') of
                  Inl e \<Rightarrow> (Inl e, tr)
                | Inr evm_address \<Rightarrow>
                    if evm_address = [] \<or> product_name = [] then (Inr stats, tr)
                    else for_each (process_chain srv dry_run evm_address) evm_chains
                           (stats\<lparr>total_rows := total_rows stats + 1\<rparr>) tr)))"

definition zero_chain_stats :: chain_stats where
  "zero_chain_stats = \<lparr>success = 0, failed = 0, not_found = 0\<rparr>"

definition initial_stats :: "string list \<Rightarrow> evm_stats" where
  "initial_stats evm_chains =
     \<lparr>total_rows = 0, skipped = 0, processed_chains = 0, failed_chains = 0,
      by_chain = map_of (map (\<lambda>chain. (chain, zero_chain_stats)) evm_chains)\<rparr>"

text \<open>
  \<^verbatim>\<open>process_csv\<close>, given the rows the reader yields. \<open>evm_chains\<close> is the module constant
  \<^verbatim>\<open>EVM_CHAINS\<close>; the bearer tokens only fill a header and the logger only writes
  lines, so neither is a parameter here.
\<close>

definition process_csv :: "service \<Rightarrow> string list \<Rightarrow> bool \<Rightarrow> row list \<Rightarrow> evm_stats outcome" where
  "process_csv srv evm_chains dry_run rows =
     for_each (process_row srv evm_chains dry_run) rows (initial_stats evm_chains) no_traffic"

definition EVM_CHAINS :: "string list" where
  "EVM_CHAINS = [''evm_56'']"

definition DRY_RUN :: bool where
  "DRY_RUN = False"

text \<open>
  What \<^verbatim>\<open>main\<close> finds when it starts: the two environment variables
  (\<^verbatim>\<open>os.getenv\<close> gives \<^verbatim>\<open>None\<close> for an unset one) and the CSV file, \<open>None\<close> when
  \<^verbatim>\<open>os.path.exists\<close> is false, otherwise the rows a reader yields from it.
\<close>

record environment =
  BEARER_TOKEN_ASSET_INFO :: "string option"
  BEARER_TOKEN_PRICING :: "string option"
  csv_file :: "row list option"

text \<open>\<^verbatim>\<open>not token\<close>: the variable is unset or empty.\<close>

fun not_token :: "string option \<Rightarrow> bool" where
  "not_token None = True"
| "not_token (Some t) = (t = [])"

text \<open>
  \<^verbatim>\<open>main\<close>: the exit code of the process and the traffic it sent. An exception that
  reaches the top level ends the interpreter with exit code 1, as \<^verbatim>\<open>sys.exit(1)\<close> does.
\<close>

definition main :: "service \<Rightarrow> environment \<Rightarrow> nat \<times> traffic" where
  "main srv env =
     (if not_token (BEARER_TOKEN_ASSET_INFO env) then (1, no_traffic)
      else if not_token (BEARER_TOKEN_PRICING env) then (1, no_traffic)
      else case csv_file env of
             None \<Rightarrow> (1, no_traffic)
           | Some rows \<Rightarrow>
               (case process_csv srv EVM_CHAINS DRY_RUN rows of
                  (Inl e, tr) \<Rightarrow> (1, tr)
                | (Inr stats, tr) \<Rightarrow> (0, tr)))"

section \<open>mark_not_spam_solana.py\<close>

record solana_stats =
  sol_total_rows :: nat
  sol_skipped :: nat
  sol_success :: nat
  sol_failed :: nat
  sol_not_found :: nat

definition SOLANA_CHAIN :: string where
  "SOLANA_CHAIN = ''solana_mainnet''"

definition get_asset_info_solana :: "service \<Rightarrow> string \<Rightarrow> traffic \<Rightarrow> json \<times> traffic" where
  "get_asset_info_solana srv solana_address tr =
     (case post_asset_infos srv SOLANA_CHAIN solana_address tr of (r, tr') \<Rightarrow> (json_or_none r, tr'))"

text \<open>
  The body of the row loop (lines 136 to 193), the three cells read and stripped first
  (lines 137 to 139); this script's \<^verbatim>\<open>mark_asset_not_spam\<close> is the same text as the
  EVM script's.
\<close>

definition process_row_solana :: "service \<Rightarrow> bool \<Rightarrow> row \<Rightarrow> solana_stats \<Rightarrow> traffic \<Rightarrow> solana_stats outcome" where
  "process_row_solana srv dry_run row stats0 tr =
     (case py_strip (row_get row ''Product name'') of
        Inl e \<Rightarrow> (Inl e, tr)
      | Inr product_name \<Rightarrow>
     (case py_strip (row_get row ''Token Symbol'') of
        Inl e \<Rightarrow> (Inl e, tr)
      | Inr token_symbol \<Rightarrow>
     (case py_strip (row_get row ''Solana Address'') of
        Inl e \<Rightarrow> (Inl e, tr)
      | Inr solana_address \<Rightarrow>
         if solana_address = [] \<or> product_name = [] then (Inr stats0, tr)
         else
           (let stats = stats0\<lparr>sol_total_rows := sol_total_rows stats0 + 1\<rparr>
            in case get_asset_info_solana srv solana_address tr of
                 (asset_info, tr1) \<Rightarrow>
                   if \<not> truthy asset_info
                   then (Inr (stats\<lparr>sol_not_found := sol_not_found stats + 1\<rparr>), tr1)
                   else
                     (case json_get asset_info ''id'' JNull of
                        Inl e \<Rightarrow> (Inl e, tr1)
                      | Inr asset_id \<Rightarrow>
                          if \<not> truthy asset_id
                          then (Inr (stats\<lparr>sol_failed := sol_failed stats + 1\<rparr>), tr1)
                          else if \<not> dry_run then
                            (case mark_asset_not_spam srv asset_id tr1 of
                               (ok, tr2) \<Rightarrow>
                                 if ok then (Inr (stats\<lparr>sol_success := sol_success stats + 1\<rparr>), tr2)
                                 else (Inr (stats\<lparr>sol_failed := sol_failed stats + 1\<rparr>), tr2))
                          else (Inr (stats\<lparr>sol_success := sol_success stats + 1\<rparr>), tr1))))))"

definition initial_stats_solana :: solana_stats where
  "initial_stats_solana =
     \<lparr>sol_total_rows = 0, sol_skipped = 0, sol_success = 0, sol_failed = 0, sol_not_found = 0\<rparr>"

definition process_csv_solana :: "service \<Rightarrow> bool \<Rightarrow> row list \<Rightarrow> solana_stats outcome" where
  "process_csv_solana srv dry_run rows =
     for_each (process_row_solana srv dry_run) rows initial_stats_solana no_traffic"

definition main_solana :: "service \<Rightarrow> environment \<Rightarrow> nat \<times> traffic" where
  "main_solana srv env =
     (if not_token (BEARER_TOKEN_ASSET_INFO env) then (1, no_traffic)
      else if not_token (BEARER_TOKEN_PRICING env) then (1, no_traffic)
      else case csv_file env of
             None \<Rightarrow> (1, no_traffic)
           | Some rows \<Rightarrow>
               (case process_csv_solana srv DRY_RUN rows of
                  (Inl e, tr) \<Rightarrow> (1, tr)
                | (Inr stats, tr) \<Rightarrow> (0, tr)))"

section \<open>run.py\<close>

text \<open>
  The three local counters of \<^verbatim>\<open>process_csv\<close>, and the status lines it prints, oldest
  first (one constructor per status \<^verbatim>\<open>print\<close> of the loop body).
\<close>

datatype line =
    Skipping_missing
  | Failed_to_get_asset_info
  | No_asset_ID
  | Failed_to_update_price
  | Price_updated
  | Warning_no_stdout

record price_stats =
  successful :: nat
  failed_rows :: nat
  skipped_rows :: nat
  printed :: "line list"

definition get_asset_info_bsc :: "service \<Rightarrow> string \<Rightarrow> traffic \<Rightarrow> json \<times> traffic" where
  "get_asset_info_bsc srv bsc_address tr =
     (case post_asset_infos srv ''evm_56'' bsc_address tr of (r, tr') \<Rightarrow> (json_or_none r, tr'))"

text \<open>
  \<^verbatim>\<open>update_asset_price\<close>: the POST is sent whatever \<^verbatim>\<open>dry_run\<close> is; the flag is a
  field of the form (\<^verbatim>\<open>"dry_run": str(dry_run).lower()\<close>).
\<close>

definition update_asset_price :: "service \<Rightarrow> json \<Rightarrow> string \<Rightarrow> bool \<Rightarrow> traffic \<Rightarrow> json \<times> traffic" where
  "update_asset_price srv asset_id coingecko_id dry_run tr =
     (case post_mutation srv (UpdatePrice asset_id coingecko_id dry_run) tr of
        (r, tr') \<Rightarrow> (json_or_none r, tr'))"

definition count_failed_row :: "line \<Rightarrow> price_stats \<Rightarrow> price_stats" where
  "count_failed_row l st = st\<lparr>printed := printed st @ [l], failed_rows := failed_rows st + 1\<rparr>"

text \<open>
  The body of the row loop (lines 90 to 151). \<^verbatim>\<open>name\<close> is read without
  \<^verbatim>\<open>.strip()\<close> and only printed; the other two cells are stripped.
\<close>

definition process_row_price :: "service \<Rightarrow> bool \<Rightarrow> row \<Rightarrow> price_stats \<Rightarrow> traffic \<Rightarrow> price_stats outcome" where
  "process_row_price srv dry_run row st tr =
     (case py_strip (row_get row ''BSC Deployed Address'') of
        Inl e \<Rightarrow> (Inl e, tr)
      | Inr bsc_address \<Rightarrow>
     (case py_strip (row_get row ''CoinGecko API ID'') of
        Inl e \<Rightarrow> (Inl e, tr)
      | Inr coingecko_id \<Rightarrow>
         if bsc_address = [] \<or> coingecko_id = []
         then (Inr (st\<lparr>printed := printed st @ [Skipping_missing],
                        skipped_rows := skipped_rows st + 1\<rparr>), tr)
         else
           (case get_asset_info_bsc srv bsc_address tr of
              (asset_info, tr1) \<Rightarrow>
                if \<not> truthy asset_info
                then (Inr (count_failed_row Failed_to_get_asset_info st), tr1)
                else
                  (case json_get asset_info ''id'' JNull of
                     Inl e \<Rightarrow> (Inl e, tr1)
                   | Inr asset_id \<Rightarrow>
                       if \<not> truthy asset_id
                       then (Inr (count_failed_row No_asset_ID st), tr1)
                       else
                         (case update_asset_price srv asset_id coingecko_id dry_run tr1 of
                            (price_response, tr2) \<Rightarrow>
                              if \<not> truthy price_response
                              then (Inr (count_failed_row Failed_to_update_price st), tr2)
                              else
                                (case json_get price_response ''stdout'' (JStr []) of
                                   Inl e \<Rightarrow> (Inl e, tr2)
                                 | Inr stdout \<Rightarrow>
                                     if truthy stdout then
                                       (case len_and_slice stdout of
                                          Inl e \<Rightarrow> (Inl e, tr2)
                                        | Inr u \<Rightarrow>
                                            (Inr (st\<lparr>printed := printed st @ [Price_updated],
                                                      successful := successful st + 1\<rparr>), tr2))
                                     else (Inr (count_failed_row Warning_no_stdout st), tr2)))))))"

definition process_csv_price :: "service \<Rightarrow> bool \<Rightarrow> row list \<Rightarrow> price_stats outcome" where
  "process_csv_price srv dry_run rows =
     for_each (process_row_price srv dry_run) rows
       \<lparr>successful = 0, failed_rows = 0, skipped_rows = 0, printed = []\<rparr> no_traffic"

definition CSV_FILE :: string where
  "CSV_FILE = ''asset_list.csv''"

text \<open>\<^verbatim>\<open>not token or token == "eyJ"\<close>.\<close>

definition not_token_or_eyJ :: "string option \<Rightarrow> bool" where
  "not_token_or_eyJ t = (not_token t \<or> t = Some ''eyJ'')"

definition main_price :: "service \<Rightarrow> environment \<Rightarrow> nat \<times> traffic" where
  "main_price srv env =
     (if not_token_or_eyJ (BEARER_TOKEN_ASSET_INFO env) then (1, no_traffic)
      else if not_token_or_eyJ (BEARER_TOKEN_PRICING env) then (1, no_traffic)
      else if CSV_FILE = [] then (1, no_traffic)
      else case csv_file env of
             None \<Rightarrow> (1, no_traffic)
           | Some rows \<Rightarrow>
               (case process_csv_price srv DRY_RUN rows of
                  (Inl e, tr) \<Rightarrow> (1, tr)
                | (Inr st, tr) \<Rightarrow> (0, tr)))"

section \<open>Notions used in the statements\<close>

text \<open>
  The resolution call fails inside \<^verbatim>\<open>get_asset_info\<close>: a transport failure, a status
  that \<^verbatim>\<open>raise_for_status\<close> rejects (404 among them), or a body that is not JSON.
\<close>

fun resolution_fails :: "http_reply \<Rightarrow> bool" where
  "resolution_fails ConnectionFailed = True"
| "resolution_fails (Reply status body) = (raise_for_status status \<or> body = None)"



text \<open>
  The text a script works with after \<^verbatim>\<open>row.get(key, '').strip()\<close>, for a cell that is
  a string (the empty string stands in where the cell is \<^verbatim>\<open>None\<close> and the script has
  raised).
\<close>

definition stripped :: "row \<Rightarrow> string \<Rightarrow> string" where
  "stripped row key = (case py_strip (row_get row key) of Inl e \<Rightarrow> [] | Inr s \<Rightarrow> s)"

definition has_cell :: "row \<Rightarrow> string \<Rightarrow> bool" where
  "has_cell row key = (row_get row key \<noteq> None)"

text \<open>The cells a script strips are all strings: none of its reads raises.\<close>

definition row_readable :: "row \<Rightarrow> bool" where
  "row_readable row =
     (has_cell row ''Product name'' \<and> has_cell row ''Token Symbol'' \<and> has_cell row ''EVM address'')"

definition row_readable_solana :: "row \<Rightarrow> bool" where
  "row_readable_solana row =
     (has_cell row ''Product name'' \<and> has_cell row ''Token Symbol'' \<and>
      has_cell row ''Solana Address'')"

definition row_readable_price :: "row \<Rightarrow> bool" where
  "row_readable_price row =
     (has_cell row ''BSC Deployed Address'' \<and> has_cell row ''CoinGecko API ID'')"

text \<open>
  The row is read and passes the check of the script (lines 143, 142 and 100 of the
  three scripts).
\<close>

definition row_ok :: "row \<Rightarrow> bool" where
  "row_ok row =
     (row_readable row \<and> stripped row ''EVM address'' \<noteq> [] \<and> stripped row ''Product name'' \<noteq> [])"

definition row_ok_solana :: "row \<Rightarrow> bool" where
  "row_ok_solana row =
     (row_readable_solana row \<and> stripped row ''Solana Address'' \<noteq> [] \<and>
      stripped row ''Product name'' \<noteq> [])"

definition row_ok_price :: "row \<Rightarrow> bool" where
  "row_ok_price row =
     (row_readable_price row \<and> stripped row ''BSC Deployed Address'' \<noteq> [] \<and>
      stripped row ''CoinGecko API ID'' \<noteq> [])"

text \<open>
  The sum of one per-chain counter over the keys of \<^verbatim>\<open>stats["by_chain"]\<close>, which are the
  chains of \<^verbatim>\<open>EVM_CHAINS\<close>, each once.
\<close>

definition chain_counter :: "(chain_stats \<Rightarrow> nat) \<Rightarrow> evm_stats \<Rightarrow> string \<Rightarrow> nat" where
  "chain_counter field stats chain =
     (case by_chain stats chain of None \<Rightarrow> 0 | Some cs \<Rightarrow> field cs)"

definition chain_total :: "(chain_stats \<Rightarrow> nat) \<Rightarrow> string list \<Rightarrow> evm_stats \<Rightarrow> nat" where
  "chain_total field evm_chains stats =
     sum_list (map (chain_counter field stats) (remdups evm_chains))"

text \<open>The run-wide totals agree with the per-chain buckets.\<close>

definition totals_agree :: "string list \<Rightarrow> evm_stats \<Rightarrow> bool" where
  "totals_agree evm_chains stats =
     (processed_chains stats = chain_total success evm_chains stats \<and>
      failed_chains stats = chain_total failed evm_chains stats)"

text \<open>The per-chain counters a run ends with, when it ends without an exception.\<close>

definition by_chain_result :: "string \<Rightarrow> evm_stats outcome \<Rightarrow> chain_stats option" where
  "by_chain_result chain out =
     (case out of (Inl e, tr) \<Rightarrow> None | (Inr stats, tr) \<Rightarrow> by_chain stats chain)"

text \<open>
  The same service, except that it answers every POST to the mutation endpoint with
  HTTP 200 (and any bodies).
\<close>

definition mutations_succeed :: "service \<Rightarrow> (nat \<Rightarrow> json option) \<Rightarrow> service" where
  "mutations_succeed srv bodies = srv\<lparr>mutation_reply := (\<lambda>n. Reply 200 (bodies n))\<rparr>"


text \<open>
  The four per-outcome counters of a run added up: success, failed and not found over
  the chains, and skipped.
\<close>

definition outcomes_total :: "string list \<Rightarrow> evm_stats \<Rightarrow> nat" where
  "outcomes_total evm_chains stats =
     chain_total success evm_chains stats + chain_total failed evm_chains stats +
     chain_total not_found evm_chains stats + skipped stats"

definition outcomes_total_solana :: "solana_stats \<Rightarrow> nat" where
  "outcomes_total_solana sol = sol_success sol + sol_failed sol + sol_not_found sol + sol_skipped sol"




section \<open>Concrete inputs\<close>

definition constant_service :: "http_reply \<Rightarrow> http_reply \<Rightarrow> service" where
  "constant_service r m = \<lparr>asset_infos_reply = (\<lambda>n. r), mutation_reply = (\<lambda>n. m)\<rparr>"

definition asset_A1 :: http_reply where
  "asset_A1 =
     Reply 200 (Some (JObj [(''id'', JStr ''A1''), (''name'', JStr ''TokenX''),
                            (''symbol'', JStr ''TKX'')]))"

definition example_row :: row where
  "example_row =
     [''Product name'' \<mapsto> Some ''TokenX'', ''Token Symbol'' \<mapsto> Some ''TKX'',
      ''EVM address'' \<mapsto> Some ''0xabc'', ''Solana Address'' \<mapsto> Some ''So1abc'',
      ''Name'' \<mapsto> Some ''TokenX'', ''BSC Deployed Address'' \<mapsto> Some ''0xabc'',
      ''CoinGecko API ID'' \<mapsto> Some ''tokenx'']"

definition unnamed_row :: row where
  "unnamed_row =
     [''BSC Deployed Address'' \<mapsto> Some ''0xabc'', ''CoinGecko API ID'' \<mapsto> Some ''tokenx'']"

definition blank_address_row :: row where
  "blank_address_row =
     [''Product name'' \<mapsto> Some ''TokenX'', ''Token Symbol'' \<mapsto> Some ''TKX'',
      ''EVM address'' \<mapsto> Some '' '', ''Solana Address'' \<mapsto> Some [],
      ''Name'' \<mapsto> Some ''TokenX'', ''CoinGecko API ID'' \<mapsto> Some ''tokenx'']"

text \<open>
  The row of a line shorter than the header: under the header
  \<^verbatim>\<open>Product name,EVM address,Token Symbol\<close> the line \<^verbatim>\<open>TokenX,\<close> has no third cell
  (and likewise a line without its last cell in the file of the price script).
\<close>

definition short_row :: row where
  "short_row =
     [''Product name'' \<mapsto> Some ''TokenX'', ''EVM address'' \<mapsto> Some [],
      ''Token Symbol'' \<mapsto> None, ''BSC Deployed Address'' \<mapsto> Some ''0xabc'',
      ''CoinGecko API ID'' \<mapsto> None]"


section \<open>Evaluating the concrete inputs\<close>

lemma strip_examples:
  "strip ''TokenX'' = ''TokenX''" "strip ''0xabc'' = ''0xabc''" "strip ''So1abc'' = ''So1abc''"
  "strip ''tokenx'' = ''tokenx''" "strip '' '' = []" "strip [] = []"
  by (simp_all add: strip_def isspace_def)

lemma example_row_cells:
  "row_get example_row ''Product name'' = Some ''TokenX''"
  "row_get example_row ''Token Symbol'' = Some ''TKX''"
  "row_get example_row ''EVM address'' = Some ''0xabc''"
  "row_get example_row ''Solana Address'' = Some ''So1abc''"
  "row_get example_row ''BSC Deployed Address'' = Some ''0xabc''"
  "row_get example_row ''CoinGecko API ID'' = Some ''tokenx''"
  by (simp_all add: row_get_def example_row_def)

lemma unnamed_row_cells:
  "row_get unnamed_row ''Name'' = Some []"
  "row_get unnamed_row ''BSC Deployed Address'' = Some ''0xabc''"
  "row_get unnamed_row ''CoinGecko API ID'' = Some ''tokenx''"
  by (simp_all add: row_get_def unnamed_row_def)

lemma blank_address_row_cells:
  "row_get blank_address_row ''Product name'' = Some ''TokenX''"
  "row_get blank_address_row ''Token Symbol'' = Some ''TKX''"
  "row_get blank_address_row ''EVM address'' = Some '' ''"
  "row_get blank_address_row ''Solana Address'' = Some []"
  "row_get blank_address_row ''BSC Deployed Address'' = Some []"
  "row_get blank_address_row ''CoinGecko API ID'' = Some ''tokenx''"
  by (simp_all add: row_get_def blank_address_row_def)

lemma short_row_cells:
  "row_get short_row ''Product name'' = Some ''TokenX''"
  "row_get short_row ''Token Symbol'' = None"
  "row_get short_row ''EVM address'' = Some []"
  "row_get short_row ''Solana Address'' = Some []"
  "row_get short_row ''BSC Deployed Address'' = Some ''0xabc''"
  "row_get short_row ''CoinGecko API ID'' = None"
  by (simp_all add: row_get_def short_row_def)

lemmas cells = strip_examples example_row_cells unnamed_row_cells blank_address_row_cells
  short_row_cells stripped_def has_cell_def row_readable_def row_readable_solana_def
  row_readable_price_def

subsection \<open>Reading a row\<close>

lemma py_strip_cell:
  "has_cell row key \<Longrightarrow> py_strip (row_get row key) = Inr (stripped row key)"
  by (cases "row_get row key") (simp_all add: has_cell_def stripped_def)

lemma py_strip_no_cell:
  "\<not> has_cell row key \<Longrightarrow> py_strip (row_get row key) = Inl AttributeError"
  by (simp add: has_cell_def)

lemma process_row_unreadable:
  "\<not> row_readable row \<Longrightarrow>
   process_row srv evm_chains dry_run row stats tr = (Inl AttributeError, tr)"
  by (cases "row_get row ''Product name''"; cases "row_get row ''Token Symbol''";
      cases "row_get row ''EVM address''")
    (simp_all add: process_row_def row_readable_def has_cell_def)

lemma process_row_readable:
  "row_readable row \<Longrightarrow>
   process_row srv evm_chains dry_run row stats tr =
     (if stripped row ''EVM address'' = [] \<or> stripped row ''Product name'' = [] then (Inr stats, tr)
      else for_each (process_chain srv dry_run (stripped row ''EVM address'')) evm_chains
             (stats\<lparr>total_rows := total_rows stats + 1\<rparr>) tr)"
  by (simp add: process_row_def row_readable_def py_strip_cell)

lemma process_row_not_ok:
  "\<not> row_ok row \<Longrightarrow>
   process_row srv evm_chains dry_run row stats tr =
     (if row_readable row then (Inr stats, tr) else (Inl AttributeError, tr))"
  by (auto simp add: process_row_readable process_row_unreadable row_ok_def)

lemma process_row_solana_unreadable:
  "\<not> row_readable_solana row \<Longrightarrow>
   process_row_solana srv dry_run row sol tr = (Inl AttributeError, tr)"
  by (cases "row_get row ''Product name''"; cases "row_get row ''Token Symbol''";
      cases "row_get row ''Solana Address''")
    (simp_all add: process_row_solana_def row_readable_solana_def has_cell_def)

lemma process_row_price_unreadable:
  "\<not> row_readable_price row \<Longrightarrow>
   process_row_price srv dry_run row st tr = (Inl AttributeError, tr)"
  by (cases "row_get row ''BSC Deployed Address''"; cases "row_get row ''CoinGecko API ID''")
    (simp_all add: process_row_price_def row_readable_price_def has_cell_def)


lemma reads [simp]:
  "row_readable row \<Longrightarrow> py_strip (row_get row ''Product name'') = Inr (stripped row ''Product name'')"
  "row_readable row \<Longrightarrow> py_strip (row_get row ''Token Symbol'') = Inr (stripped row ''Token Symbol'')"
  "row_readable row \<Longrightarrow> py_strip (row_get row ''EVM address'') = Inr (stripped row ''EVM address'')"
  "row_readable_solana row \<Longrightarrow>
     py_strip (row_get row ''Product name'') = Inr (stripped row ''Product name'')"
  "row_readable_solana row \<Longrightarrow>
     py_strip (row_get row ''Token Symbol'') = Inr (stripped row ''Token Symbol'')"
  "row_readable_solana row \<Longrightarrow>
     py_strip (row_get row ''Solana Address'') = Inr (stripped row ''Solana Address'')"
  "row_readable_price row \<Longrightarrow>
     py_strip (row_get row ''BSC Deployed Address'') = Inr (stripped row ''BSC Deployed Address'')"
  "row_readable_price row \<Longrightarrow>
     py_strip (row_get row ''CoinGecko API ID'') = Inr (stripped row ''CoinGecko API ID'')"
  by (simp_all add: row_readable_def row_readable_solana_def row_readable_price_def py_strip_cell)

lemma constant_service_replies [simp]:
  "asset_infos_reply (constant_service r m) n = r"
  "mutation_reply (constant_service r m) n = m"
  by (simp_all add: constant_service_def)

section \<open>Single steps of the loops\<close>


subsection \<open>One resolution call\<close>

lemma process_chain_falsy_info:
  "\<not> truthy (json_or_none (asset_infos_reply srv (length (asset_infos_posts tr)))) \<Longrightarrow>
   process_chain srv dry_run evm_address chain stats tr =
     (count_not_found chain stats,
      tr\<lparr>asset_infos_posts := asset_infos_posts tr @ [(chain, evm_address)]\<rparr>)"
  by (simp add: process_chain_def get_asset_info_def post_asset_infos_def)

lemma process_row_solana_falsy_info:
  "\<not> truthy (json_or_none (asset_infos_reply srv (length (asset_infos_posts tr)))) \<Longrightarrow>
   row_ok_solana row \<Longrightarrow>
   process_row_solana srv dry_run row stats tr =
     (Inr (stats\<lparr>sol_total_rows := sol_total_rows stats + 1,
                  sol_not_found := sol_not_found stats + 1\<rparr>),
      tr\<lparr>asset_infos_posts :=
           asset_infos_posts tr @ [(SOLANA_CHAIN, stripped row ''Solana Address'')]\<rparr>)"
  by (simp add: process_row_solana_def get_asset_info_solana_def post_asset_infos_def Let_def
      row_ok_solana_def)

lemma process_row_price_falsy_info:
  "\<not> truthy (json_or_none (asset_infos_reply srv (length (asset_infos_posts tr)))) \<Longrightarrow>
   row_ok_price row \<Longrightarrow>
   process_row_price srv dry_run row st tr =
     (Inr (count_failed_row Failed_to_get_asset_info st),
      tr\<lparr>asset_infos_posts :=
           asset_infos_posts tr @ [(''evm_56'', stripped row ''BSC Deployed Address'')]\<rparr>)"
  by (simp add: process_row_price_def get_asset_info_bsc_def post_asset_infos_def Let_def
      row_ok_price_def)

lemma resolution_fails_falsy:
  "resolution_fails r \<Longrightarrow> \<not> truthy (json_or_none r)"
  by (cases r) (auto split: option.splits)

lemma count_not_found_Some:
  "by_chain stats chain = Some cs \<Longrightarrow>
   count_not_found chain stats =
     Inr (stats\<lparr>by_chain := (by_chain stats)(chain \<mapsto> cs\<lparr>not_found := not_found cs + 1\<rparr>)\<rparr>)"
  by (simp add: count_not_found_def by_chain_add_def)

lemma count_failed_Some:
  "by_chain stats chain = Some cs \<Longrightarrow>
   count_failed chain stats =
     Inr (stats\<lparr>by_chain := (by_chain stats)(chain \<mapsto> cs\<lparr>failed := failed cs + 1\<rparr>),
                failed_chains := failed_chains stats + 1\<rparr>)"
  by (simp add: count_failed_def by_chain_add_def)

lemma count_success_Some:
  "by_chain stats chain = Some cs \<Longrightarrow>
   count_success chain stats =
     Inr (stats\<lparr>by_chain := (by_chain stats)(chain \<mapsto> cs\<lparr>success := success cs + 1\<rparr>),
                processed_chains := processed_chains stats + 1\<rparr>)"
  by (simp add: count_success_def by_chain_add_def)

lemma initial_stats_evm_56 [simp]:
  "by_chain (initial_stats [''evm_56'']) ''evm_56'' = Some zero_chain_stats"
  by (simp add: initial_stats_def)

subsection \<open>A resolution call that fails\<close>

text \<open>
  C6. For every (row, chain) pair whose resolution call is answered with "not found"
  (HTTP 404), no mutation call is issued for that pair (the traffic grows by the one
  resolution POST only) and the \<open>not_found\<close> counter of that chain grows by exactly
  one, every other counter staying as it was: in the EVM script per chain, in the
  Solana script for its single chain.
\<close>

theorem not_found_skips_mutation:
  assumes "asset_infos_reply srv (length (asset_infos_posts tr)) = Reply 404 body"
  shows "(by_chain stats chain = Some cs \<longrightarrow>
            process_chain srv dry_run evm_address chain stats tr =
              (Inr (stats\<lparr>by_chain := (by_chain stats)(chain \<mapsto> cs\<lparr>not_found := not_found cs + 1\<rparr>)\<rparr>),
               tr\<lparr>asset_infos_posts := asset_infos_posts tr @ [(chain, evm_address)]\<rparr>))
       \<and> (row_ok_solana row \<longrightarrow>
            process_row_solana srv dry_run row sol tr =
              (Inr (sol\<lparr>sol_total_rows := sol_total_rows sol + 1,
                         sol_not_found := sol_not_found sol + 1\<rparr>),
               tr\<lparr>asset_infos_posts :=
                    asset_infos_posts tr @ [(SOLANA_CHAIN, stripped row ''Solana Address'')]\<rparr>))"
proof -
  have falsy: "\<not> truthy (json_or_none (asset_infos_reply srv (length (asset_infos_posts tr))))"
    using assms by (simp add: raise_for_status_def)
  show ?thesis
    using process_chain_falsy_info [OF falsy] process_row_solana_falsy_info [OF falsy]
    by (simp add: count_not_found_Some)
qed

theorem not_found_skips_mutation_witness:
  "asset_infos_reply (constant_service (Reply 404 None) ConnectionFailed)
     (length (asset_infos_posts no_traffic)) = Reply 404 None
   \<and> by_chain (initial_stats [''evm_56'']) ''evm_56'' = Some zero_chain_stats
   \<and> row_ok_solana example_row
   \<and> process_chain (constant_service (Reply 404 None) ConnectionFailed) False ''0xabc'' ''evm_56''
       (initial_stats [''evm_56'']) no_traffic =
       (Inr ((initial_stats [''evm_56''])
               \<lparr>by_chain := (by_chain (initial_stats [''evm_56'']))
                  (''evm_56'' \<mapsto> zero_chain_stats\<lparr>not_found := not_found zero_chain_stats + 1\<rparr>)\<rparr>),
        no_traffic\<lparr>asset_infos_posts := asset_infos_posts no_traffic @ [(''evm_56'', ''0xabc'')]\<rparr>)
   \<and> process_row_solana (constant_service (Reply 404 None) ConnectionFailed) False example_row
       initial_stats_solana no_traffic =
       (Inr (initial_stats_solana\<lparr>sol_total_rows := sol_total_rows initial_stats_solana + 1,
                                   sol_not_found := sol_not_found initial_stats_solana + 1\<rparr>),
        no_traffic\<lparr>asset_infos_posts :=
           asset_infos_posts no_traffic @ [(SOLANA_CHAIN, stripped example_row ''Solana Address'')]\<rparr>)"
proof -
  have reply: "asset_infos_reply (constant_service (Reply 404 None) ConnectionFailed)
     (length (asset_infos_posts no_traffic)) = Reply 404 None"
    by simp
  have ok: "row_ok_solana example_row"
    by (simp add: row_ok_solana_def cells)
  show ?thesis
    using reply ok
      not_found_skips_mutation [OF reply, where stats = "initial_stats [''evm_56'']"
        and chain = "''evm_56''" and cs = zero_chain_stats and dry_run = False
        and evm_address = "''0xabc''" and row = example_row and sol = initial_stats_solana]
    by simp
qed

text \<open>
  C2 says that a transport failure of the resolution call records Failed. In the EVM
  script it records NotFound: after a run over one row whose resolution call fails in
  transport, the chain's counters are \<open>failed = 0\<close> and \<open>not_found = 1\<close>.
\<close>

theorem transport_failure_counted_not_found:
  "by_chain_result ''evm_56''
     (process_csv (constant_service ConnectionFailed (Reply 200 None)) EVM_CHAINS False
        [example_row]) =
     Some \<lparr>success = 0, failed = 0, not_found = 1\<rparr>"
  by (simp add: by_chain_result_def process_csv_def process_row_def cells EVM_CHAINS_def
      process_chain_falsy_info count_not_found_Some no_traffic_def zero_chain_stats_def)

text \<open>
  C2, as the code has it. \<^verbatim>\<open>get_asset_info\<close> returns \<^verbatim>\<open>None\<close> for every failure of
  the resolution call, so the kinds are not told apart: a transport failure, a status
  from 400 to 599 (404 or any other) and an undecodable body all record NotFound in the
  two spam scripts (\<open>not_found\<close> grows by one, \<open>failed\<close> does not), and all record
  a failed row in the price script. In every case only the resolution POST is sent and
  the loop goes on.
\<close>

theorem resolution_failure_kinds_merged:
  assumes "resolution_fails (asset_infos_reply srv (length (asset_infos_posts tr)))"
  shows "(by_chain stats chain = Some cs \<longrightarrow>
            process_chain srv dry_run evm_address chain stats tr =
              (Inr (stats\<lparr>by_chain := (by_chain stats)(chain \<mapsto> cs\<lparr>not_found := not_found cs + 1\<rparr>)\<rparr>),
               tr\<lparr>asset_infos_posts := asset_infos_posts tr @ [(chain, evm_address)]\<rparr>))
       \<and> (row_ok_solana row \<longrightarrow>
            process_row_solana srv dry_run row sol tr =
              (Inr (sol\<lparr>sol_total_rows := sol_total_rows sol + 1,
                         sol_not_found := sol_not_found sol + 1\<rparr>),
               tr\<lparr>asset_infos_posts :=
                    asset_infos_posts tr @ [(SOLANA_CHAIN, stripped row ''Solana Address'')]\<rparr>))
       \<and> (row_ok_price row \<longrightarrow>
            process_row_price srv dry_run row st tr =
              (Inr (st\<lparr>printed := printed st @ [Failed_to_get_asset_info],
                        failed_rows := failed_rows st + 1\<rparr>),
               tr\<lparr>asset_infos_posts :=
                    asset_infos_posts tr @ [(''evm_56'', stripped row ''BSC Deployed Address'')]\<rparr>))"
proof -
  have falsy: "\<not> truthy (json_or_none (asset_infos_reply srv (length (asset_infos_posts tr))))"
    using assms by (rule resolution_fails_falsy)
  show ?thesis
    using process_chain_falsy_info [OF falsy] process_row_solana_falsy_info [OF falsy]
      process_row_price_falsy_info [OF falsy]
    by (simp add: count_not_found_Some count_failed_row_def)
qed

theorem resolution_failure_kinds_merged_witness:
  "resolution_fails (asset_infos_reply (constant_service (Reply 500 None) ConnectionFailed)
     (length (asset_infos_posts no_traffic)))
   \<and> by_chain (initial_stats [''evm_56'']) ''evm_56'' = Some zero_chain_stats
   \<and> row_ok_solana example_row \<and> row_ok_price example_row
   \<and> process_chain (constant_service (Reply 500 None) ConnectionFailed) False ''0xabc'' ''evm_56''
       (initial_stats [''evm_56'']) no_traffic =
       (Inr ((initial_stats [''evm_56''])
               \<lparr>by_chain := (by_chain (initial_stats [''evm_56'']))
                  (''evm_56'' \<mapsto> zero_chain_stats\<lparr>not_found := not_found zero_chain_stats + 1\<rparr>)\<rparr>),
        no_traffic\<lparr>asset_infos_posts := asset_infos_posts no_traffic @ [(''evm_56'', ''0xabc'')]\<rparr>)
   \<and> process_row_solana (constant_service (Reply 500 None) ConnectionFailed) False example_row
       initial_stats_solana no_traffic =
       (Inr (initial_stats_solana\<lparr>sol_total_rows := sol_total_rows initial_stats_solana + 1,
                                   sol_not_found := sol_not_found initial_stats_solana + 1\<rparr>),
        no_traffic\<lparr>asset_infos_posts :=
           asset_infos_posts no_traffic @ [(SOLANA_CHAIN, stripped example_row ''Solana Address'')]\<rparr>)
   \<and> process_row_price (constant_service (Reply 500 None) ConnectionFailed) False example_row
       \<lparr>successful = 0, failed_rows = 0, skipped_rows = 0, printed = []\<rparr> no_traffic =
       (Inr \<lparr>successful = 0, failed_rows = 1, skipped_rows = 0, printed = [Failed_to_get_asset_info]\<rparr>,
        no_traffic\<lparr>asset_infos_posts :=
           asset_infos_posts no_traffic @ [(''evm_56'', stripped example_row ''BSC Deployed Address'')]\<rparr>)"
proof -
  have fails: "resolution_fails (asset_infos_reply (constant_service (Reply 500 None) ConnectionFailed)
     (length (asset_infos_posts no_traffic)))"
    by (simp add: raise_for_status_def)
  have ok: "row_ok_solana example_row" "row_ok_price example_row"
    by (simp_all add: row_ok_solana_def row_ok_price_def cells)
  show ?thesis
    using fails ok
      resolution_failure_kinds_merged [OF fails, where stats = "initial_stats [''evm_56'']"
        and chain = "''evm_56''" and cs = zero_chain_stats and dry_run = False
        and evm_address = "''0xabc''" and row = example_row and sol = initial_stats_solana
        and st = "\<lparr>successful = 0, failed_rows = 0, skipped_rows = 0, printed = []\<rparr>"]
    by simp
qed

subsection \<open>A resolution reply without an asset id\<close>

lemma process_chain_falsy_id:
  "truthy (json_or_none (asset_infos_reply srv (length (asset_infos_posts tr)))) \<Longrightarrow>
   json_get (json_or_none (asset_infos_reply srv (length (asset_infos_posts tr)))) ''id'' JNull
     = Inr asset_id \<Longrightarrow>
   \<not> truthy asset_id \<Longrightarrow>
   process_chain srv dry_run evm_address chain stats tr =
     (count_failed chain stats,
      tr\<lparr>asset_infos_posts := asset_infos_posts tr @ [(chain, evm_address)]\<rparr>)"
  by (simp add: process_chain_def get_asset_info_def post_asset_infos_def)

lemma process_row_solana_falsy_id:
  "truthy (json_or_none (asset_infos_reply srv (length (asset_infos_posts tr)))) \<Longrightarrow>
   json_get (json_or_none (asset_infos_reply srv (length (asset_infos_posts tr)))) ''id'' JNull
     = Inr asset_id \<Longrightarrow>
   \<not> truthy asset_id \<Longrightarrow>
   row_ok_solana row \<Longrightarrow>
   process_row_solana srv dry_run row stats tr =
     (Inr (stats\<lparr>sol_total_rows := sol_total_rows stats + 1,
                  sol_failed := sol_failed stats + 1\<rparr>),
      tr\<lparr>asset_infos_posts :=
           asset_infos_posts tr @ [(SOLANA_CHAIN, stripped row ''Solana Address'')]\<rparr>)"
  by (simp add: process_row_solana_def get_asset_info_solana_def post_asset_infos_def Let_def
      row_ok_solana_def)

text \<open>
  C9 says that a resolution reply whose body lacks the identifier records Failed. The
  empty JSON object lacks it, and the EVM script records NotFound for it, since
  \<^verbatim>\<open>not asset_info\<close> is true of an empty dict: the chain's counters end as
  \<open>failed = 0\<close> and \<open>not_found = 1\<close>.
\<close>

theorem empty_object_counted_not_found:
  "by_chain_result ''evm_56''
     (process_csv (constant_service (Reply 200 (Some (JObj []))) (Reply 200 None)) EVM_CHAINS False
        [example_row]) =
     Some \<lparr>success = 0, failed = 0, not_found = 1\<rparr>"
  by (simp add: by_chain_result_def process_csv_def process_row_def cells EVM_CHAINS_def
      process_chain_falsy_info count_not_found_Some no_traffic_def zero_chain_stats_def
      raise_for_status_def)

text \<open>
  C9, as the code has it. When the resolution call succeeds with a body that is a
  non-empty JSON object whose \<^verbatim>\<open>id\<close> is absent or falsy (null, empty string, 0, false,
  empty list or object), Failed is recorded for the pair: in the EVM script the chain's
  \<open>failed\<close> counter and \<open>failed_chains\<close> both grow by one, in the Solana script
  \<open>failed\<close> grows by one; only the resolution POST is sent and the loop goes on. (An
  empty JSON object is recorded as NotFound.)
\<close>

theorem missing_id_counted_failed:
  assumes "asset_infos_reply srv (length (asset_infos_posts tr)) = Reply status (Some (JObj kvs))"
    and "\<not> raise_for_status status"
    and "kvs \<noteq> []"
    and "json_get (JObj kvs) ''id'' JNull = Inr asset_id"
    and "\<not> truthy asset_id"
  shows "(by_chain stats chain = Some cs \<longrightarrow>
            process_chain srv dry_run evm_address chain stats tr =
              (Inr (stats\<lparr>by_chain := (by_chain stats)(chain \<mapsto> cs\<lparr>failed := failed cs + 1\<rparr>),
                         failed_chains := failed_chains stats + 1\<rparr>),
               tr\<lparr>asset_infos_posts := asset_infos_posts tr @ [(chain, evm_address)]\<rparr>))
       \<and> (row_ok_solana row \<longrightarrow>
            process_row_solana srv dry_run row sol tr =
              (Inr (sol\<lparr>sol_total_rows := sol_total_rows sol + 1,
                         sol_failed := sol_failed sol + 1\<rparr>),
               tr\<lparr>asset_infos_posts :=
                    asset_infos_posts tr @ [(SOLANA_CHAIN, stripped row ''Solana Address'')]\<rparr>))"
proof -
  have info: "json_or_none (asset_infos_reply srv (length (asset_infos_posts tr))) = JObj kvs"
    using assms(1,2) by simp
  have t: "truthy (json_or_none (asset_infos_reply srv (length (asset_infos_posts tr))))"
    using info assms(3) by simp
  have g: "json_get (json_or_none (asset_infos_reply srv (length (asset_infos_posts tr)))) ''id'' JNull
     = Inr asset_id"
    using info assms(4) by simp
  show ?thesis
    using process_chain_falsy_id [OF t g assms(5)] process_row_solana_falsy_id [OF t g assms(5)]
    by (simp add: count_failed_Some)
qed

theorem missing_id_counted_failed_witness:
  "asset_infos_reply (constant_service (Reply 200 (Some (JObj [(''name'', JStr ''TokenX'')]))) ConnectionFailed)
     (length (asset_infos_posts no_traffic)) = Reply 200 (Some (JObj [(''name'', JStr ''TokenX'')]))
   \<and> \<not> raise_for_status 200
   \<and> [(''name'', JStr ''TokenX'')] \<noteq> []
   \<and> json_get (JObj [(''name'', JStr ''TokenX'')]) ''id'' JNull = Inr JNull
   \<and> \<not> truthy JNull
   \<and> by_chain (initial_stats [''evm_56'']) ''evm_56'' = Some zero_chain_stats
   \<and> row_ok_solana example_row
   \<and> process_chain (constant_service (Reply 200 (Some (JObj [(''name'', JStr ''TokenX'')]))) ConnectionFailed)
       False ''0xabc'' ''evm_56'' (initial_stats [''evm_56'']) no_traffic =
       (Inr ((initial_stats [''evm_56''])
               \<lparr>by_chain := (by_chain (initial_stats [''evm_56'']))
                  (''evm_56'' \<mapsto> zero_chain_stats\<lparr>failed := failed zero_chain_stats + 1\<rparr>),
                failed_chains := failed_chains (initial_stats [''evm_56'']) + 1\<rparr>),
        no_traffic\<lparr>asset_infos_posts := asset_infos_posts no_traffic @ [(''evm_56'', ''0xabc'')]\<rparr>)
   \<and> process_row_solana (constant_service (Reply 200 (Some (JObj [(''name'', JStr ''TokenX'')]))) ConnectionFailed)
       False example_row initial_stats_solana no_traffic =
       (Inr (initial_stats_solana\<lparr>sol_total_rows := sol_total_rows initial_stats_solana + 1,
                                   sol_failed := sol_failed initial_stats_solana + 1\<rparr>),
        no_traffic\<lparr>asset_infos_posts :=
           asset_infos_posts no_traffic @ [(SOLANA_CHAIN, stripped example_row ''Solana Address'')]\<rparr>)"
proof -
  have h1: "asset_infos_reply (constant_service (Reply 200 (Some (JObj [(''name'', JStr ''TokenX'')]))) ConnectionFailed)
     (length (asset_infos_posts no_traffic)) = Reply 200 (Some (JObj [(''name'', JStr ''TokenX'')]))"
    by simp
  have h2: "\<not> raise_for_status 200"
    by (simp add: raise_for_status_def)
  have h3: "[(''name'', JStr ''TokenX'')] \<noteq> []"
    by simp
  have h4: "json_get (JObj [(''name'', JStr ''TokenX'')]) ''id'' JNull = Inr JNull"
    by simp
  have h5: "\<not> truthy JNull"
    by simp
  have ok: "row_ok_solana example_row"
    by (simp add: row_ok_solana_def cells)
  show ?thesis
    using h1 h2 h4 ok
      missing_id_counted_failed [OF h1 h2 h3 h4 h5, where stats = "initial_stats [''evm_56'']"
        and chain = "''evm_56''" and cs = zero_chain_stats and dry_run = False
        and evm_address = "''0xabc''" and row = example_row and sol = initial_stats_solana]
    by simp
qed

subsection \<open>The price update of one row\<close>

lemma process_row_price_no_stdout:
  assumes "row_ok_price row"
    and "json_or_none (asset_infos_reply srv (length (asset_infos_posts tr))) = JObj info"
    and "json_get (JObj info) ''id'' JNull = Inr asset_id"
    and "truthy asset_id"
    and "json_or_none (mutation_reply srv (length (mutation_posts tr))) = JObj kvs"
    and "json_get (JObj kvs) ''stdout'' (JStr []) = Inr out"
    and "\<not> truthy out"
  shows "process_row_price srv dry_run row st tr =
     (Inr (count_failed_row (if kvs = [] then Failed_to_update_price else Warning_no_stdout) st),
      tr\<lparr>asset_infos_posts :=
             asset_infos_posts tr @ [(''evm_56'', stripped row ''BSC Deployed Address'')],
          mutation_posts :=
             mutation_posts tr @
               [UpdatePrice asset_id (stripped row ''CoinGecko API ID'') dry_run]\<rparr>)"
proof -
  have "info \<noteq> []"
    using assms(3,4) by (auto split: option.splits)
  then show ?thesis
    using assms
    by (simp add: process_row_price_def get_asset_info_bsc_def post_asset_infos_def Let_def
        row_ok_price_def update_asset_price_def post_mutation_def)
qed

text \<open>
  C4 says that a price update answered with HTTP 200 and no \<^verbatim>\<open>stdout\<close> is not recorded
  under the failed counter. The script counts it there: one row, resolved to asset A1,
  update answered 200 with the body \<^verbatim>\<open>{"status": "ok"}\<close>, ends with \<open>failed = 1\<close> and
  \<open>successful = 0\<close>, after printing the warning.
\<close>

theorem no_stdout_counted_failed:
  "fst (process_csv_price
          (constant_service asset_A1 (Reply 200 (Some (JObj [(''status'', JStr ''ok'')]))))
          False [example_row]) =
     Inr \<lparr>successful = 0, failed_rows = 1, skipped_rows = 0, printed = [Warning_no_stdout]\<rparr>"
  by (simp add: process_csv_price_def process_row_price_def cells Let_def get_asset_info_bsc_def
      post_asset_infos_def update_asset_price_def post_mutation_def no_traffic_def asset_A1_def
      raise_for_status_def count_failed_row_def)

text \<open>
  C4, as the code has it. In the price script, when the update call is answered with
  HTTP 200 and a JSON object whose \<^verbatim>\<open>stdout\<close> is absent or falsy, the row is recorded
  under the failed counter: \<open>failed\<close> grows by one, \<open>successful\<close> and \<open>skipped\<close> stay,
  and the line printed is the warning "No stdout in response" when the object is not
  empty ("Failed to update price" when it is).
\<close>

theorem no_stdout_is_failed:
  assumes "row_ok_price row"
    and "asset_infos_reply srv (length (asset_infos_posts tr)) = Reply 200 (Some (JObj info))"
    and "json_get (JObj info) ''id'' JNull = Inr asset_id"
    and "truthy asset_id"
    and "mutation_reply srv (length (mutation_posts tr)) = Reply 200 (Some (JObj kvs))"
    and "json_get (JObj kvs) ''stdout'' (JStr []) = Inr out"
    and "\<not> truthy out"
  shows "fst (process_row_price srv dry_run row st tr) =
     Inr (st\<lparr>printed := printed st @ [if kvs = [] then Failed_to_update_price else Warning_no_stdout],
             failed_rows := failed_rows st + 1\<rparr>)"
proof -
  have r: "json_or_none (asset_infos_reply srv (length (asset_infos_posts tr))) = JObj info"
    using assms(2) by (simp add: raise_for_status_def)
  have m: "json_or_none (mutation_reply srv (length (mutation_posts tr))) = JObj kvs"
    using assms(5) by (simp add: raise_for_status_def)
  show ?thesis
    using process_row_price_no_stdout [OF assms(1) r assms(3,4) m assms(6,7)]
    by (simp add: count_failed_row_def)
qed

theorem no_stdout_is_failed_witness:
  "row_ok_price example_row
   \<and> asset_infos_reply (constant_service asset_A1 (Reply 200 (Some (JObj [(''status'', JStr ''ok'')]))))
       (length (asset_infos_posts no_traffic)) =
       Reply 200 (Some (JObj [(''id'', JStr ''A1''), (''name'', JStr ''TokenX''), (''symbol'', JStr ''TKX'')]))
   \<and> json_get (JObj [(''id'', JStr ''A1''), (''name'', JStr ''TokenX''), (''symbol'', JStr ''TKX'')])
        ''id'' JNull = Inr (JStr ''A1'')
   \<and> truthy (JStr ''A1'')
   \<and> mutation_reply (constant_service asset_A1 (Reply 200 (Some (JObj [(''status'', JStr ''ok'')]))))
       (length (mutation_posts no_traffic)) = Reply 200 (Some (JObj [(''status'', JStr ''ok'')]))
   \<and> json_get (JObj [(''status'', JStr ''ok'')]) ''stdout'' (JStr []) = Inr (JStr [])
   \<and> \<not> truthy (JStr [])
   \<and> fst (process_row_price
            (constant_service asset_A1 (Reply 200 (Some (JObj [(''status'', JStr ''ok'')]))))
            True example_row
            \<lparr>successful = 3, failed_rows = 1, skipped_rows = 2, printed = []\<rparr> no_traffic) =
       Inr \<lparr>successful = 3, failed_rows = 2, skipped_rows = 2, printed = [Warning_no_stdout]\<rparr>"
proof -
  have h1: "row_ok_price example_row"
    by (simp add: row_ok_price_def cells)
  have h2: "asset_infos_reply (constant_service asset_A1 (Reply 200 (Some (JObj [(''status'', JStr ''ok'')]))))
       (length (asset_infos_posts no_traffic)) =
       Reply 200 (Some (JObj [(''id'', JStr ''A1''), (''name'', JStr ''TokenX''), (''symbol'', JStr ''TKX'')]))"
    by (simp add: asset_A1_def)
  have h3: "json_get (JObj [(''id'', JStr ''A1''), (''name'', JStr ''TokenX''), (''symbol'', JStr ''TKX'')])
        ''id'' JNull = Inr (JStr ''A1'')"
    by simp
  have h4: "truthy (JStr ''A1'')"
    by simp
  have h5: "mutation_reply (constant_service asset_A1 (Reply 200 (Some (JObj [(''status'', JStr ''ok'')]))))
       (length (mutation_posts no_traffic)) = Reply 200 (Some (JObj [(''status'', JStr ''ok'')]))"
    by simp
  have h6: "json_get (JObj [(''status'', JStr ''ok'')]) ''stdout'' (JStr []) = Inr (JStr [])"
    by simp
  have h7: "\<not> truthy (JStr [])"
    by simp
  show ?thesis
    using h1 h2 h3 h5 h6
      no_stdout_is_failed [OF h1 h2 h3 h4 h5 h6 h7, where dry_run = True
        and st = "\<lparr>successful = 3, failed_rows = 1, skipped_rows = 2, printed = []\<rparr>"]
    by simp
qed

subsection \<open>What a step sends to the resolution endpoint\<close>

lemma process_chain_lookup:
  "asset_infos_posts (snd (process_chain srv dry_run evm_address chain stats tr)) =
     asset_infos_posts tr @ [(chain, evm_address)]"
  by (simp add: process_chain_def get_asset_info_def post_asset_infos_def mark_asset_not_spam_def
      post_mutation_def split: sum.splits)

lemma process_chains_lookups:
  "\<exists>ys. asset_infos_posts (snd (for_each (process_chain srv dry_run evm_address) cs stats tr)) =
     asset_infos_posts tr @ ys"
proof (induction cs arbitrary: stats tr)
  case Nil
  show ?case by simp
next
  case (Cons c cs)
  obtain r tr1 where step: "process_chain srv dry_run evm_address c stats tr = (r, tr1)"
    by (cases "process_chain srv dry_run evm_address c stats tr")
  have tr1: "asset_infos_posts tr1 = asset_infos_posts tr @ [(c, evm_address)]"
    using process_chain_lookup [of srv dry_run evm_address c stats tr] step by simp
  show ?case
  proof (cases r)
    case (Inl e)
    with step tr1 show ?thesis by simp
  next
    case (Inr stats1)
    from Cons.IH [of stats1 tr1] obtain ys where
      "asset_infos_posts (snd (for_each (process_chain srv dry_run evm_address) cs stats1 tr1)) =
         asset_infos_posts tr1 @ ys" ..
    with step Inr tr1 show ?thesis by simp
  qed
qed

lemma process_row_first_lookup:
  assumes "row_ok row"
  shows "\<exists>ys. asset_infos_posts (snd (process_row srv (c # cs) dry_run row stats tr)) =
     asset_infos_posts tr @ (c, stripped row ''EVM address'') # ys"
proof -
  let ?a = "stripped row ''EVM address''"
  let ?s = "stats\<lparr>total_rows := total_rows stats + 1\<rparr>"
  obtain r tr1 where step: "process_chain srv dry_run ?a c ?s tr = (r, tr1)"
    by (cases "process_chain srv dry_run ?a c ?s tr")
  have tr1: "asset_infos_posts tr1 = asset_infos_posts tr @ [(c, ?a)]"
    using process_chain_lookup [of srv dry_run ?a c ?s tr] step by simp
  show ?thesis
  proof (cases r)
    case (Inl e)
    with step tr1 assms show ?thesis
      by (simp add: process_row_def row_ok_def Let_def)
  next
    case (Inr stats1)
    from process_chains_lookups [of srv dry_run ?a cs stats1 tr1] obtain ys where
      "asset_infos_posts (snd (for_each (process_chain srv dry_run ?a) cs stats1 tr1)) =
         asset_infos_posts tr1 @ ys" ..
    with step Inr tr1 assms show ?thesis
      by (simp add: process_row_def row_ok_def Let_def)
  qed
qed

lemma process_row_solana_lookup:
  "row_ok_solana row \<Longrightarrow>
   asset_infos_posts (snd (process_row_solana srv dry_run row sol tr)) =
     asset_infos_posts tr @ [(SOLANA_CHAIN, stripped row ''Solana Address'')]"
  by (simp add: process_row_solana_def row_ok_solana_def Let_def get_asset_info_solana_def
      post_asset_infos_def mark_asset_not_spam_def post_mutation_def split: sum.splits)

lemma process_row_price_lookup:
  "row_ok_price row \<Longrightarrow>
   asset_infos_posts (snd (process_row_price srv dry_run row st tr)) =
     asset_infos_posts tr @ [(''evm_56'', stripped row ''BSC Deployed Address'')]"
  by (simp add: process_row_price_def row_ok_price_def Let_def get_asset_info_bsc_def
      post_asset_infos_def update_asset_price_def post_mutation_def split: sum.splits)

text \<open>
  C3 says that a row without a display name is skipped with no network call. The price
  script does not look at the \<^verbatim>\<open>Name\<close> column: a row that has an address and a price
  source id but no name is resolved and updated, and nothing is counted as skipped.
\<close>

theorem unnamed_row_is_processed:
  "row_get unnamed_row ''Name'' = Some []
   \<and> process_csv_price
       (constant_service asset_A1 (Reply 200 (Some (JObj [(''stdout'', JStr ''done'')]))))
       False [unnamed_row] =
      (Inr \<lparr>successful = 1, failed_rows = 0, skipped_rows = 0, printed = [Price_updated]\<rparr>,
       \<lparr>asset_infos_posts = [(''evm_56'', ''0xabc'')],
          mutation_posts = [UpdatePrice (JStr ''A1'') ''tokenx'' False]\<rparr>)"
  by (simp add: process_csv_price_def process_row_price_def cells Let_def get_asset_info_bsc_def
      post_asset_infos_def update_asset_price_def post_mutation_def no_traffic_def asset_A1_def
      raise_for_status_def)

text \<open>
  C3, as the code has it. Take a row that has a cell for each column the script
  strips (its line is not shorter than the header). It fails the check when its address
  is empty after stripping white space, or when its second required field is: the
  product name in the two spam scripts, the price source id (not the display name) in
  the price script. For such a row no request of either kind is sent, no success, failed
  or not-found counter and no count of rows changes, and the loop goes on with the next
  row; the price script prints that it skips the row and adds one to its skipped
  counter. A row that passes the check is never skipped: its resolution call is sent (to
  the first configured chain, in the EVM script). A row that lacks one of those cells
  is not skipped either: \<^verbatim>\<open>.strip()\<close> on \<^verbatim>\<open>None\<close> raises an \<^verbatim>\<open>AttributeError\<close> that
  nothing catches, before the check and before any request for that row, and the run
  ends there.
\<close>

theorem invalid_row_no_network_call:
  "(row_readable row \<and> \<not> row_ok row \<longrightarrow>
      (\<exists>stats'. process_row srv evm_chains dry_run row stats tr = (Inr stats', tr)
         \<and> by_chain stats' = by_chain stats
         \<and> processed_chains stats' = processed_chains stats
         \<and> failed_chains stats' = failed_chains stats
         \<and> total_rows stats' = total_rows stats
         \<and> for_each (process_row srv evm_chains dry_run) (row # rows) stats tr =
             for_each (process_row srv evm_chains dry_run) rows stats' tr))
   \<and> (row_readable_solana row \<and> \<not> row_ok_solana row \<longrightarrow>
      (\<exists>sol'. process_row_solana srv dry_run row sol tr = (Inr sol', tr)
         \<and> sol_success sol' = sol_success sol
         \<and> sol_failed sol' = sol_failed sol
         \<and> sol_not_found sol' = sol_not_found sol
         \<and> sol_total_rows sol' = sol_total_rows sol
         \<and> for_each (process_row_solana srv dry_run) (row # rows) sol tr =
             for_each (process_row_solana srv dry_run) rows sol' tr))
   \<and> (row_readable_price row \<and> \<not> row_ok_price row \<longrightarrow>
      process_row_price srv dry_run row st tr =
        (Inr (st\<lparr>printed := printed st @ [Skipping_missing],
                  skipped_rows := skipped_rows st + 1\<rparr>), tr)
      \<and> for_each (process_row_price srv dry_run) (row # rows) st tr =
          for_each (process_row_price srv dry_run) rows
            (st\<lparr>printed := printed st @ [Skipping_missing],
                skipped_rows := skipped_rows st + 1\<rparr>) tr)
   \<and> (row_ok row \<longrightarrow>
      (\<exists>ys. asset_infos_posts (snd (process_row srv (c # cs) dry_run row stats tr)) =
         asset_infos_posts tr @ (c, stripped row ''EVM address'') # ys))
   \<and> (row_ok_solana row \<longrightarrow>
      asset_infos_posts (snd (process_row_solana srv dry_run row sol tr)) =
        asset_infos_posts tr @ [(SOLANA_CHAIN, stripped row ''Solana Address'')])
   \<and> (row_ok_price row \<longrightarrow>
      asset_infos_posts (snd (process_row_price srv dry_run row st tr)) =
        asset_infos_posts tr @ [(''evm_56'', stripped row ''BSC Deployed Address'')])
   \<and> (\<not> row_readable row \<longrightarrow>
      process_row srv evm_chains dry_run row stats tr = (Inl AttributeError, tr)
      \<and> for_each (process_row srv evm_chains dry_run) (row # rows) stats tr =
          (Inl AttributeError, tr))
   \<and> (\<not> row_readable_solana row \<longrightarrow>
      process_row_solana srv dry_run row sol tr = (Inl AttributeError, tr)
      \<and> for_each (process_row_solana srv dry_run) (row # rows) sol tr = (Inl AttributeError, tr))
   \<and> (\<not> row_readable_price row \<longrightarrow>
      process_row_price srv dry_run row st tr = (Inl AttributeError, tr)
      \<and> for_each (process_row_price srv dry_run) (row # rows) st tr = (Inl AttributeError, tr))"
proof -
  have evm: "process_row srv evm_chains dry_run row stats tr = (Inr stats, tr)"
    if "row_readable row" "\<not> row_ok row"
    using that by (auto simp add: process_row_readable row_ok_def)
  have solana: "process_row_solana srv dry_run row sol tr = (Inr sol, tr)"
    if "row_readable_solana row" "\<not> row_ok_solana row"
    using that by (auto simp add: process_row_solana_def row_ok_solana_def)
  have price: "process_row_price srv dry_run row st tr =
        (Inr (st\<lparr>printed := printed st @ [Skipping_missing],
                  skipped_rows := skipped_rows st + 1\<rparr>), tr)"
    if "row_readable_price row" "\<not> row_ok_price row"
    using that by (auto simp add: process_row_price_def row_ok_price_def)
  show ?thesis
    using evm solana price process_row_first_lookup [of row srv c cs dry_run stats tr]
      process_row_solana_lookup [of row srv dry_run sol tr]
      process_row_price_lookup [of row srv dry_run st tr]
      process_row_unreadable [of row srv evm_chains dry_run stats tr]
      process_row_solana_unreadable [of row srv dry_run sol tr]
      process_row_price_unreadable [of row srv dry_run st tr]
    by simp
qed

theorem invalid_row_no_network_call_witness:
  "row_readable blank_address_row \<and> \<not> row_ok blank_address_row
   \<and> row_readable_solana blank_address_row \<and> \<not> row_ok_solana blank_address_row
   \<and> row_readable_price blank_address_row \<and> \<not> row_ok_price blank_address_row
   \<and> row_ok example_row \<and> row_ok_solana example_row \<and> row_ok_price example_row
   \<and> \<not> row_readable short_row \<and> \<not> row_readable_solana short_row
   \<and> \<not> row_readable_price short_row
   \<and> (\<exists>stats'. process_row (constant_service asset_A1 (Reply 200 None)) EVM_CHAINS False
          blank_address_row (initial_stats EVM_CHAINS) no_traffic = (Inr stats', no_traffic)
         \<and> by_chain stats' = by_chain (initial_stats EVM_CHAINS)
         \<and> processed_chains stats' = processed_chains (initial_stats EVM_CHAINS)
         \<and> failed_chains stats' = failed_chains (initial_stats EVM_CHAINS)
         \<and> total_rows stats' = total_rows (initial_stats EVM_CHAINS)
         \<and> for_each (process_row (constant_service asset_A1 (Reply 200 None)) EVM_CHAINS False)
              [blank_address_row, example_row] (initial_stats EVM_CHAINS) no_traffic =
             for_each (process_row (constant_service asset_A1 (Reply 200 None)) EVM_CHAINS False)
              [example_row] stats' no_traffic)
   \<and> (\<exists>sol'. process_row_solana (constant_service asset_A1 (Reply 200 None)) False
          blank_address_row initial_stats_solana no_traffic = (Inr sol', no_traffic)
         \<and> sol_success sol' = sol_success initial_stats_solana
         \<and> sol_failed sol' = sol_failed initial_stats_solana
         \<and> sol_not_found sol' = sol_not_found initial_stats_solana
         \<and> sol_total_rows sol' = sol_total_rows initial_stats_solana
         \<and> for_each (process_row_solana (constant_service asset_A1 (Reply 200 None)) False)
              [blank_address_row, example_row] initial_stats_solana no_traffic =
             for_each (process_row_solana (constant_service asset_A1 (Reply 200 None)) False)
              [example_row] sol' no_traffic)
   \<and> process_row_price (constant_service asset_A1 (Reply 200 None)) False blank_address_row
        \<lparr>successful = 0, failed_rows = 0, skipped_rows = 0, printed = []\<rparr> no_traffic =
        (Inr \<lparr>successful = 0, failed_rows = 0, skipped_rows = 1, printed = [Skipping_missing]\<rparr>,
         no_traffic)
   \<and> for_each (process_row_price (constant_service asset_A1 (Reply 200 None)) False)
        [blank_address_row, example_row]
        \<lparr>successful = 0, failed_rows = 0, skipped_rows = 0, printed = []\<rparr> no_traffic =
       for_each (process_row_price (constant_service asset_A1 (Reply 200 None)) False)
        [example_row]
        \<lparr>successful = 0, failed_rows = 0, skipped_rows = 1, printed = [Skipping_missing]\<rparr> no_traffic
   \<and> (\<exists>ys. asset_infos_posts (snd (process_row (constant_service asset_A1 (Reply 200 None))
          [''evm_56'', ''evm_1''] False example_row (initial_stats [''evm_56'', ''evm_1'']) no_traffic)) =
         (''evm_56'', ''0xabc'') # ys)
   \<and> asset_infos_posts (snd (process_row_solana (constant_service asset_A1 (Reply 200 None)) False
          example_row initial_stats_solana no_traffic)) = [(''solana_mainnet'', ''So1abc'')]
   \<and> asset_infos_posts (snd (process_row_price (constant_service asset_A1 (Reply 200 None)) False
          example_row \<lparr>successful = 0, failed_rows = 0, skipped_rows = 0, printed = []\<rparr> no_traffic)) =
        [(''evm_56'', ''0xabc'')]
   \<and> for_each (process_row (constant_service asset_A1 (Reply 200 None)) EVM_CHAINS False)
        [short_row, example_row] (initial_stats EVM_CHAINS) no_traffic =
       (Inl AttributeError, no_traffic)
   \<and> for_each (process_row_solana (constant_service asset_A1 (Reply 200 None)) False)
        [short_row, example_row] initial_stats_solana no_traffic =
       (Inl AttributeError, no_traffic)
   \<and> for_each (process_row_price (constant_service asset_A1 (Reply 200 None)) False)
        [short_row, example_row]
        \<lparr>successful = 0, failed_rows = 0, skipped_rows = 0, printed = []\<rparr> no_traffic =
       (Inl AttributeError, no_traffic)"
proof -
  let ?srv = "constant_service asset_A1 (Reply 200 None)"
  let ?st = "\<lparr>successful = 0, failed_rows = 0, skipped_rows = 0, printed = []\<rparr>"
  have bad: "row_readable blank_address_row" "\<not> row_ok blank_address_row"
    "row_readable_solana blank_address_row" "\<not> row_ok_solana blank_address_row"
    "row_readable_price blank_address_row" "\<not> row_ok_price blank_address_row"
    by (simp_all add: row_ok_def row_ok_solana_def row_ok_price_def cells)
  have good: "row_ok example_row" "row_ok_solana example_row" "row_ok_price example_row"
    by (simp_all add: row_ok_def row_ok_solana_def row_ok_price_def cells)
  have short: "\<not> row_readable short_row" "\<not> row_readable_solana short_row"
    "\<not> row_readable_price short_row"
    by (simp_all add: cells)
  have skipped: "(\<exists>stats'. process_row ?srv EVM_CHAINS False
          blank_address_row (initial_stats EVM_CHAINS) no_traffic = (Inr stats', no_traffic)
         \<and> by_chain stats' = by_chain (initial_stats EVM_CHAINS)
         \<and> processed_chains stats' = processed_chains (initial_stats EVM_CHAINS)
         \<and> failed_chains stats' = failed_chains (initial_stats EVM_CHAINS)
         \<and> total_rows stats' = total_rows (initial_stats EVM_CHAINS)
         \<and> for_each (process_row ?srv EVM_CHAINS False)
              [blank_address_row, example_row] (initial_stats EVM_CHAINS) no_traffic =
             for_each (process_row ?srv EVM_CHAINS False) [example_row] stats' no_traffic)"
    "(\<exists>sol'. process_row_solana ?srv False
          blank_address_row initial_stats_solana no_traffic = (Inr sol', no_traffic)
         \<and> sol_success sol' = sol_success initial_stats_solana
         \<and> sol_failed sol' = sol_failed initial_stats_solana
         \<and> sol_not_found sol' = sol_not_found initial_stats_solana
         \<and> sol_total_rows sol' = sol_total_rows initial_stats_solana
         \<and> for_each (process_row_solana ?srv False)
              [blank_address_row, example_row] initial_stats_solana no_traffic =
             for_each (process_row_solana ?srv False) [example_row] sol' no_traffic)"
    "process_row_price ?srv False blank_address_row ?st no_traffic =
        (Inr (?st\<lparr>printed := printed ?st @ [Skipping_missing],
                   skipped_rows := skipped_rows ?st + 1\<rparr>), no_traffic)"
    "for_each (process_row_price ?srv False) [blank_address_row, example_row] ?st no_traffic =
       for_each (process_row_price ?srv False) [example_row]
         (?st\<lparr>printed := printed ?st @ [Skipping_missing],
              skipped_rows := skipped_rows ?st + 1\<rparr>) no_traffic"
    using bad invalid_row_no_network_call [where row = blank_address_row and srv = ?srv
        and evm_chains = EVM_CHAINS and dry_run = False and stats = "initial_stats EVM_CHAINS"
        and tr = no_traffic and rows = "[example_row]" and sol = initial_stats_solana
        and st = ?st]
    by blast+
  have sent: "(\<exists>ys. asset_infos_posts (snd (process_row ?srv [''evm_56'', ''evm_1''] False
          example_row (initial_stats [''evm_56'', ''evm_1'']) no_traffic)) =
         asset_infos_posts no_traffic @ (''evm_56'', stripped example_row ''EVM address'') # ys)"
    "asset_infos_posts (snd (process_row_solana ?srv False
          example_row initial_stats_solana no_traffic)) =
       asset_infos_posts no_traffic @ [(SOLANA_CHAIN, stripped example_row ''Solana Address'')]"
    "asset_infos_posts (snd (process_row_price ?srv False example_row ?st no_traffic)) =
       asset_infos_posts no_traffic @ [(''evm_56'', stripped example_row ''BSC Deployed Address'')]"
    using good invalid_row_no_network_call [where row = example_row and srv = ?srv
        and dry_run = False and stats = "initial_stats [''evm_56'', ''evm_1'']"
        and tr = no_traffic and sol = initial_stats_solana and st = ?st
        and c = "''evm_56''" and cs = "[''evm_1'']"]
    by blast+
  have raised: "for_each (process_row ?srv EVM_CHAINS False) [short_row, example_row]
        (initial_stats EVM_CHAINS) no_traffic = (Inl AttributeError, no_traffic)"
    "for_each (process_row_solana ?srv False) [short_row, example_row] initial_stats_solana
        no_traffic = (Inl AttributeError, no_traffic)"
    "for_each (process_row_price ?srv False) [short_row, example_row] ?st no_traffic =
        (Inl AttributeError, no_traffic)"
    using short invalid_row_no_network_call [where row = short_row and srv = ?srv
        and evm_chains = EVM_CHAINS and dry_run = False and stats = "initial_stats EVM_CHAINS"
        and tr = no_traffic and rows = "[example_row]" and sol = initial_stats_solana
        and st = ?st]
    by blast+
  have eval: "asset_infos_posts no_traffic = []" "SOLANA_CHAIN = ''solana_mainnet''"
    by (simp_all add: no_traffic_def SOLANA_CHAIN_def)
  show ?thesis
    using bad good short skipped sent raised by (simp add: eval cells)
qed

subsection \<open>Exit codes\<close>

text \<open>
  C8 says that with both tokens and the input file present the process exits with code
  0. The price script also refuses the token \<^verbatim>\<open>eyJ\<close>: with that token set, the other
  token set and the file present, it exits with code 1 and sends nothing.
\<close>

theorem placeholder_token_exits_1:
  "main_price (constant_service asset_A1 (Reply 200 None))
     \<lparr>BEARER_TOKEN_ASSET_INFO = Some ''eyJ'', BEARER_TOKEN_PRICING = Some ''secret'',
      csv_file = Some [example_row]\<rparr> = (1, no_traffic)"
  by (simp add: main_price_def not_token_or_eyJ_def)

text \<open>
  C8, as the code has it. In the two spam scripts an unset or empty token, or a missing
  input file, ends the process with exit code 1 before any row is read (nothing is
  sent); the price script does the same and also treats a token equal to \<^verbatim>\<open>eyJ\<close> as
  missing. Otherwise the rows are processed, and the process exits with code 0 when
  the processing completes, whatever the counters are; an exception that escapes from
  the processing ends it with exit code 1.
\<close>

theorem exit_codes:
  "(not_token (BEARER_TOKEN_ASSET_INFO env) \<or> not_token (BEARER_TOKEN_PRICING env)
      \<or> csv_file env = None \<longrightarrow>
      main srv env = (1, no_traffic) \<and> main_solana srv env = (1, no_traffic))
   \<and> (not_token_or_eyJ (BEARER_TOKEN_ASSET_INFO env) \<or> not_token_or_eyJ (BEARER_TOKEN_PRICING env)
      \<or> csv_file env = None \<longrightarrow>
      main_price srv env = (1, no_traffic))
   \<and> (BEARER_TOKEN_ASSET_INFO env = Some a \<and> a \<noteq> [] \<and> BEARER_TOKEN_PRICING env = Some p
      \<and> p \<noteq> [] \<and> csv_file env = Some rows \<longrightarrow>
      main srv env =
        (case fst (process_csv srv EVM_CHAINS DRY_RUN rows) of Inl e \<Rightarrow> 1 | Inr stats \<Rightarrow> 0,
         snd (process_csv srv EVM_CHAINS DRY_RUN rows))
      \<and> main_solana srv env =
        (case fst (process_csv_solana srv DRY_RUN rows) of Inl e \<Rightarrow> 1 | Inr sol \<Rightarrow> 0,
         snd (process_csv_solana srv DRY_RUN rows))
      \<and> (a \<noteq> ''eyJ'' \<and> p \<noteq> ''eyJ'' \<longrightarrow>
         main_price srv env =
           (case fst (process_csv_price srv DRY_RUN rows) of Inl e \<Rightarrow> 1 | Inr st \<Rightarrow> 0,
            snd (process_csv_price srv DRY_RUN rows))))"
  by (auto simp add: main_def main_solana_def main_price_def not_token_or_eyJ_def CSV_FILE_def
      split: option.splits sum.splits prod.splits)

theorem exit_codes_witness:
  "not_token (BEARER_TOKEN_ASSET_INFO
      \<lparr>BEARER_TOKEN_ASSET_INFO = None, BEARER_TOKEN_PRICING = Some ''secret'',
       csv_file = Some [example_row]\<rparr>)
   \<and> not_token_or_eyJ (BEARER_TOKEN_ASSET_INFO
      \<lparr>BEARER_TOKEN_ASSET_INFO = None, BEARER_TOKEN_PRICING = Some ''secret'',
       csv_file = Some [example_row]\<rparr>)
   \<and> main (constant_service asset_A1 (Reply 200 None))
        \<lparr>BEARER_TOKEN_ASSET_INFO = None, BEARER_TOKEN_PRICING = Some ''secret'',
         csv_file = Some [example_row]\<rparr> = (1, no_traffic)
   \<and> main_solana (constant_service asset_A1 (Reply 200 None))
        \<lparr>BEARER_TOKEN_ASSET_INFO = None, BEARER_TOKEN_PRICING = Some ''secret'',
         csv_file = Some [example_row]\<rparr> = (1, no_traffic)
   \<and> main_price (constant_service asset_A1 (Reply 200 None))
        \<lparr>BEARER_TOKEN_ASSET_INFO = None, BEARER_TOKEN_PRICING = Some ''secret'',
         csv_file = Some [example_row]\<rparr> = (1, no_traffic)
   \<and> main (constant_service ConnectionFailed ConnectionFailed)
        \<lparr>BEARER_TOKEN_ASSET_INFO = Some ''token'', BEARER_TOKEN_PRICING = Some ''secret'',
         csv_file = Some [example_row]\<rparr> =
       (0, \<lparr>asset_infos_posts = [(''evm_56'', ''0xabc'')], mutation_posts = []\<rparr>)
   \<and> main_solana (constant_service ConnectionFailed ConnectionFailed)
        \<lparr>BEARER_TOKEN_ASSET_INFO = Some ''token'', BEARER_TOKEN_PRICING = Some ''secret'',
         csv_file = Some [example_row]\<rparr> =
       (0, \<lparr>asset_infos_posts = [(''solana_mainnet'', ''So1abc'')], mutation_posts = []\<rparr>)
   \<and> main_price (constant_service ConnectionFailed ConnectionFailed)
        \<lparr>BEARER_TOKEN_ASSET_INFO = Some ''token'', BEARER_TOKEN_PRICING = Some ''secret'',
         csv_file = Some [example_row]\<rparr> =
       (0, \<lparr>asset_infos_posts = [(''evm_56'', ''0xabc'')], mutation_posts = []\<rparr>)"
proof -
  let ?unset = "\<lparr>BEARER_TOKEN_ASSET_INFO = None, BEARER_TOKEN_PRICING = Some ''secret'',
       csv_file = Some [example_row]\<rparr>"
  let ?set = "\<lparr>BEARER_TOKEN_ASSET_INFO = Some ''token'', BEARER_TOKEN_PRICING = Some ''secret'',
       csv_file = Some [example_row]\<rparr>"
  let ?down = "constant_service ConnectionFailed ConnectionFailed"
  have unset: "not_token (BEARER_TOKEN_ASSET_INFO ?unset)"
    "not_token_or_eyJ (BEARER_TOKEN_ASSET_INFO ?unset)"
    by (simp_all add: not_token_or_eyJ_def)
  have fatal: "main (constant_service asset_A1 (Reply 200 None)) ?unset = (1, no_traffic)"
    "main_solana (constant_service asset_A1 (Reply 200 None)) ?unset = (1, no_traffic)"
    "main_price (constant_service asset_A1 (Reply 200 None)) ?unset = (1, no_traffic)"
    using unset exit_codes [where env = ?unset and srv = "constant_service asset_A1 (Reply 200 None)"]
    by blast+
  have present: "BEARER_TOKEN_ASSET_INFO ?set = Some ''token''" "''token'' \<noteq> []"
    "BEARER_TOKEN_PRICING ?set = Some ''secret''" "''secret'' \<noteq> []"
    "csv_file ?set = Some [example_row]" "''token'' \<noteq> ''eyJ''" "''secret'' \<noteq> ''eyJ''"
    by simp_all
  have run: "main ?down ?set =
        (case fst (process_csv ?down EVM_CHAINS DRY_RUN [example_row]) of Inl e \<Rightarrow> 1 | Inr stats \<Rightarrow> 0,
         snd (process_csv ?down EVM_CHAINS DRY_RUN [example_row]))"
    "main_solana ?down ?set =
        (case fst (process_csv_solana ?down DRY_RUN [example_row]) of Inl e \<Rightarrow> 1 | Inr sol \<Rightarrow> 0,
         snd (process_csv_solana ?down DRY_RUN [example_row]))"
    "main_price ?down ?set =
           (case fst (process_csv_price ?down DRY_RUN [example_row]) of Inl e \<Rightarrow> 1 | Inr st \<Rightarrow> 0,
            snd (process_csv_price ?down DRY_RUN [example_row]))"
    using present exit_codes [where env = ?set and srv = ?down and a = "''token''"
        and p = "''secret''" and rows = "[example_row]"]
    by blast+
  have ok: "row_ok example_row" "row_ok_solana example_row" "row_ok_price example_row"
    by (simp_all add: row_ok_def row_ok_solana_def row_ok_price_def cells)
  have evm: "process_csv ?down EVM_CHAINS DRY_RUN [example_row] =
      (Inr ((initial_stats [''evm_56''])
         \<lparr>total_rows := 1,
          by_chain := (by_chain (initial_stats [''evm_56'']))
            (''evm_56'' \<mapsto> zero_chain_stats\<lparr>not_found := not_found zero_chain_stats + 1\<rparr>)\<rparr>),
       \<lparr>asset_infos_posts = [(''evm_56'', ''0xabc'')], mutation_posts = []\<rparr>)"
    by (simp add: process_csv_def process_row_def cells EVM_CHAINS_def
        process_chain_falsy_info count_not_found_Some no_traffic_def initial_stats_def)
  have solana: "process_csv_solana ?down DRY_RUN [example_row] =
      (Inr (initial_stats_solana\<lparr>sol_total_rows := sol_total_rows initial_stats_solana + 1,
                sol_not_found := sol_not_found initial_stats_solana + 1\<rparr>),
       \<lparr>asset_infos_posts = [(''solana_mainnet'', ''So1abc'')], mutation_posts = []\<rparr>)"
    by (simp add: process_csv_solana_def process_row_solana_falsy_info ok cells no_traffic_def
        SOLANA_CHAIN_def)
  have price: "process_csv_price ?down DRY_RUN [example_row] =
      (Inr (count_failed_row Failed_to_get_asset_info
              \<lparr>successful = 0, failed_rows = 0, skipped_rows = 0, printed = []\<rparr>),
       \<lparr>asset_infos_posts = [(''evm_56'', ''0xabc'')], mutation_posts = []\<rparr>)"
    by (simp add: process_csv_price_def process_row_price_falsy_info ok cells no_traffic_def)
  show ?thesis
    using unset fatal run by (simp add: evm solana price)
qed

section \<open>Whole runs\<close>

subsection \<open>Two loops in step\<close>


lemma mutations_succeed_replies [simp]:
  "asset_infos_reply (mutations_succeed srv bodies) n = asset_infos_reply srv n"
  "mutation_reply (mutations_succeed srv bodies) n = Reply 200 (bodies n)"
  by (simp_all add: mutations_succeed_def)






subsection \<open>What a completed loop has done\<close>

lemma for_each_preserves:
  assumes step: "\<And>x st tr st' tr'. x \<in> set xs \<Longrightarrow> P st \<Longrightarrow> body x st tr = (Inr st', tr') \<Longrightarrow> P st'"
  shows "P st \<Longrightarrow> for_each body xs st tr = (Inr st', tr') \<Longrightarrow> P st'"
  using step
proof (induction xs arbitrary: st tr)
  case Nil
  then show ?case by simp
next
  case (Cons x xs)
  obtain r u where b: "body x st tr = (r, u)" by (cases "body x st tr")
  show ?case
  proof (cases r)
    case (Inl e)
    with b Cons.prems(2) show ?thesis by simp
  next
    case (Inr s1)
    with b Cons.prems(1) Cons.prems(3) [of x st tr s1 u] have p: "P s1" by simp
    from b Inr Cons.prems(2) have rest: "for_each body xs s1 u = (Inr st', tr')" by simp
    have "P t'" if "y \<in> set xs" "P t" "body y t w = (Inr t', w')" for y t w t' w'
      using Cons.prems(3) [of y t w t' w'] that by simp
    with p rest show ?thesis
      by (rule Cons.IH)
  qed
qed



lemma for_each_completes:
  assumes step: "\<And>x st tr. x \<in> set xs \<Longrightarrow> P st \<Longrightarrow>
      \<exists>st' tr'. body x st tr = (Inr st', tr') \<and> P st'"
  shows "P st \<Longrightarrow> \<exists>st' tr'. for_each body xs st tr = (Inr st', tr') \<and> P st'"
  using step
proof (induction xs arbitrary: st tr)
  case Nil
  then show ?case by simp
next
  case (Cons x xs)
  from Cons.prems(2) [of x st tr] Cons.prems(1)
  obtain s1 u where b: "body x st tr = (Inr s1, u)" and p: "P s1" by auto
  have "\<exists>t' w'. body y t w = (Inr t', w') \<and> P t'" if "y \<in> set xs" "P t" for y t w
    using Cons.prems(2) [of y t w] that by simp
  with p have "\<exists>st' tr'. for_each body xs s1 u = (Inr st', tr') \<and> P st'"
    by (rule Cons.IH)
  with b show ?case by simp
qed

subsection \<open>Sums over the chains\<close>

lemma sum_list_update_none:
  fixes g :: "'a \<Rightarrow> nat"
  shows "c \<notin> set xs \<Longrightarrow> sum_list (map (g(c := v)) xs) = sum_list (map g xs)"
  by (induction xs) auto

lemma sum_list_update_one:
  fixes g :: "'a \<Rightarrow> nat"
  shows "distinct xs \<Longrightarrow> c \<in> set xs \<Longrightarrow>
    sum_list (map (g(c := v)) xs) + g c = sum_list (map g xs) + v"
proof (induction xs)
  case Nil
  then show ?case by simp
next
  case (Cons x xs)
  show ?case
  proof (cases "x = c")
    case True
    with Cons.prems have "c \<notin> set xs" by simp
    then have "sum_list (map (g(c := v)) xs) = sum_list (map g xs)"
      by (rule sum_list_update_none)
    with True show ?thesis by (simp add: fun_upd_same del: fun_upd_apply)
  next
    case False
    with Cons show ?thesis by simp
  qed
qed

lemma chain_counter_update:
  "chain_counter field (stats\<lparr>by_chain := (by_chain stats)(chain \<mapsto> cs')\<rparr>) =
     (chain_counter field stats)(chain := field cs')"
  by (rule ext) (simp add: chain_counter_def)

lemma chain_total_update:
  assumes "chain \<in> set evm_chains" and "by_chain stats chain = Some cs"
  shows "chain_total field evm_chains (stats\<lparr>by_chain := (by_chain stats)(chain \<mapsto> cs')\<rparr>) + field cs =
     chain_total field evm_chains stats + field cs'"
proof -
  have "chain_counter field stats chain = field cs"
    using assms(2) by (simp add: chain_counter_def)
  with sum_list_update_one [of "remdups evm_chains" chain "chain_counter field stats" "field cs'"]
    assms(1)
  show ?thesis
    by (simp add: chain_total_def chain_counter_update)
qed

lemma chain_total_other_fields [simp]:
  "chain_total field evm_chains (stats\<lparr>total_rows := n\<rparr>) = chain_total field evm_chains stats"
  "chain_total field evm_chains (stats\<lparr>failed_chains := n\<rparr>) = chain_total field evm_chains stats"
  "chain_total field evm_chains (stats\<lparr>processed_chains := n\<rparr>) = chain_total field evm_chains stats"
  by (simp_all add: chain_total_def chain_counter_def cong: map_cong)

lemma chain_total_initial:
  "chain_total field evm_chains (initial_stats evm_chains) = field zero_chain_stats * length (remdups evm_chains)"
proof -
  have "chain_counter field (initial_stats evm_chains) c = field zero_chain_stats"
    if "c \<in> set evm_chains" for c
    using that by (simp add: chain_counter_def initial_stats_def map_of_map_restrict restrict_map_def)
  then have "map (chain_counter field (initial_stats evm_chains)) (remdups evm_chains) =
      map (\<lambda>c. field zero_chain_stats) (remdups evm_chains)"
    by (simp cong: map_cong)
  then show ?thesis
    by (simp add: chain_total_def sum_list_replicate map_replicate_const)
qed

subsection \<open>The effect of one chain step on the counters\<close>

lemma by_chain_add_Inr:
  "by_chain_add chain f stats = Inr stats' \<Longrightarrow>
   \<exists>cs. by_chain stats chain = Some cs \<and> stats' = stats\<lparr>by_chain := (by_chain stats)(chain \<mapsto> f cs)\<rparr>"
  by (auto simp add: by_chain_add_def split: option.splits)

lemma process_chain_effect:
  assumes "process_chain srv dry_run a chain stats tr = (Inr stats', tr')"
  shows "\<exists>cs. by_chain stats chain = Some cs \<and>
     (stats' = stats\<lparr>by_chain := (by_chain stats)(chain \<mapsto> cs\<lparr>not_found := not_found cs + 1\<rparr>)\<rparr>
      \<or> stats' = stats\<lparr>by_chain := (by_chain stats)(chain \<mapsto> cs\<lparr>failed := failed cs + 1\<rparr>),
                        failed_chains := failed_chains stats + 1\<rparr>
      \<or> stats' = stats\<lparr>by_chain := (by_chain stats)(chain \<mapsto> cs\<lparr>success := success cs + 1\<rparr>),
                        processed_chains := processed_chains stats + 1\<rparr>)"
proof -
  from assms have "count_not_found chain stats = Inr stats' \<or> count_failed chain stats = Inr stats'
      \<or> count_success chain stats = Inr stats'"
    by (auto simp add: process_chain_def split: prod.splits if_splits sum.splits)
  then show ?thesis
    by (auto simp add: count_not_found_def count_failed_def count_success_def
        dest!: by_chain_add_Inr split: sum.splits)
qed

lemma process_chain_totals_agree:
  assumes step: "process_chain srv dry_run a chain stats tr = (Inr stats', tr')"
    and chain: "chain \<in> set evm_chains"
    and agree: "totals_agree evm_chains stats"
  shows "totals_agree evm_chains stats'"
proof -
  from process_chain_effect [OF step] obtain cs where cs: "by_chain stats chain = Some cs"
    and eff: "stats' = stats\<lparr>by_chain := (by_chain stats)(chain \<mapsto> cs\<lparr>not_found := not_found cs + 1\<rparr>)\<rparr>
      \<or> stats' = stats\<lparr>by_chain := (by_chain stats)(chain \<mapsto> cs\<lparr>failed := failed cs + 1\<rparr>),
                        failed_chains := failed_chains stats + 1\<rparr>
      \<or> stats' = stats\<lparr>by_chain := (by_chain stats)(chain \<mapsto> cs\<lparr>success := success cs + 1\<rparr>),
                        processed_chains := processed_chains stats + 1\<rparr>"
    by blast
  note upd = chain_total_update [OF chain cs]
  from eff show ?thesis
  proof (elim disjE)
    assume s: "stats' = stats\<lparr>by_chain := (by_chain stats)(chain \<mapsto> cs\<lparr>not_found := not_found cs + 1\<rparr>)\<rparr>"
    from upd [of success "cs\<lparr>not_found := not_found cs + 1\<rparr>"]
      upd [of failed "cs\<lparr>not_found := not_found cs + 1\<rparr>"] agree
    show ?thesis by (simp add: s totals_agree_def)
  next
    assume s: "stats' = stats\<lparr>by_chain := (by_chain stats)(chain \<mapsto> cs\<lparr>failed := failed cs + 1\<rparr>),
                        failed_chains := failed_chains stats + 1\<rparr>"
    from upd [of success "cs\<lparr>failed := failed cs + 1\<rparr>"]
      upd [of failed "cs\<lparr>failed := failed cs + 1\<rparr>"] agree
    show ?thesis by (simp add: s totals_agree_def)
  next
    assume s: "stats' = stats\<lparr>by_chain := (by_chain stats)(chain \<mapsto> cs\<lparr>success := success cs + 1\<rparr>),
                        processed_chains := processed_chains stats + 1\<rparr>"
    from upd [of success "cs\<lparr>success := success cs + 1\<rparr>"]
      upd [of failed "cs\<lparr>success := success cs + 1\<rparr>"] agree
    show ?thesis by (simp add: s totals_agree_def)
  qed
qed

lemma process_row_totals_agree:
  assumes step: "process_row srv evm_chains dry_run row stats tr = (Inr stats', tr')"
    and agree: "totals_agree evm_chains stats"
  shows "totals_agree evm_chains stats'"
proof (cases "row_ok row")
  case False
  with step agree show ?thesis
    by (auto simp add: process_row_not_ok split: if_splits)
next
  case True
  let ?a = "stripped row ''EVM address''"
  from True step have loop: "for_each (process_chain srv dry_run ?a) evm_chains
      (stats\<lparr>total_rows := total_rows stats + 1\<rparr>) tr = (Inr stats', tr')"
    by (simp add: process_row_def row_ok_def Let_def)
  from agree have start: "totals_agree evm_chains (stats\<lparr>total_rows := total_rows stats + 1\<rparr>)"
    by (simp add: totals_agree_def)
  show ?thesis
    by (rule for_each_preserves [where P = "totals_agree evm_chains", OF _ start loop])
      (rule process_chain_totals_agree)
qed

lemma initial_totals_agree: "totals_agree evm_chains (initial_stats evm_chains)"
  by (simp add: totals_agree_def chain_total_initial zero_chain_stats_def)
    (simp add: initial_stats_def)

text \<open>
  C10. In the EVM script the run-wide counter \<open>processed_chains\<close> is the sum of the
  per-chain \<open>success\<close> counters and \<open>failed_chains\<close> the sum of the per-chain
  \<open>failed\<close> counters, over the configured chains, at every point of the run between
  two steps: it holds of the initial counters, every chain step and every row step
  keeps it, and so it holds when the run over any list of rows ends.
\<close>

theorem run_wide_totals_are_chain_sums:
  "totals_agree evm_chains (initial_stats evm_chains)
   \<and> (totals_agree evm_chains stats \<and> chain \<in> set evm_chains
        \<and> fst (process_chain srv dry_run a chain stats tr) = Inr after_chain
      \<longrightarrow> totals_agree evm_chains after_chain)
   \<and> (totals_agree evm_chains stats
        \<and> fst (process_row srv evm_chains dry_run row stats tr) = Inr after_row
      \<longrightarrow> totals_agree evm_chains after_row)
   \<and> (fst (process_csv srv evm_chains dry_run rows) = Inr at_end
      \<longrightarrow> totals_agree evm_chains at_end)"
proof -
  have chain_step: "totals_agree evm_chains after_chain"
    if "totals_agree evm_chains stats" "chain \<in> set evm_chains"
      "fst (process_chain srv dry_run a chain stats tr) = Inr after_chain"
    using that process_chain_totals_agree [of srv dry_run a chain stats tr after_chain
        "snd (process_chain srv dry_run a chain stats tr)" evm_chains]
    by (cases "process_chain srv dry_run a chain stats tr") simp
  have row_step: "totals_agree evm_chains after_row"
    if "totals_agree evm_chains stats"
      "fst (process_row srv evm_chains dry_run row stats tr) = Inr after_row"
    using that process_row_totals_agree [of srv evm_chains dry_run row stats tr after_row
        "snd (process_row srv evm_chains dry_run row stats tr)"]
    by (cases "process_row srv evm_chains dry_run row stats tr") simp
  have run: "totals_agree evm_chains at_end"
    if "fst (process_csv srv evm_chains dry_run rows) = Inr at_end"
  proof -
    from that obtain tr3 where
      "for_each (process_row srv evm_chains dry_run) rows (initial_stats evm_chains) no_traffic
         = (Inr at_end, tr3)"
      by (cases "process_csv srv evm_chains dry_run rows") (simp add: process_csv_def)
    with initial_totals_agree show ?thesis
      by (rule for_each_preserves [where P = "totals_agree evm_chains", rotated])
        (rule process_row_totals_agree)
  qed
  from initial_totals_agree chain_step row_step run show ?thesis
    by blast
qed

subsection \<open>A live run against a service that knows the asset\<close>

lemma live_service_step:
  "process_chain (constant_service asset_A1 (Reply 200 None)) False ''0xabc'' ''evm_56''
     \<lparr>total_rows = n, skipped = 0, processed_chains = p, failed_chains = 0,
      by_chain = [''evm_56'' \<mapsto> \<lparr>success = p, failed = 0, not_found = 0\<rparr>]\<rparr>
     \<lparr>asset_infos_posts = xs, mutation_posts = ys\<rparr> =
   (Inr \<lparr>total_rows = n, skipped = 0, processed_chains = p + 1, failed_chains = 0,
         by_chain = [''evm_56'' \<mapsto> \<lparr>success = p + 1, failed = 0, not_found = 0\<rparr>]\<rparr>,
    \<lparr>asset_infos_posts = xs @ [(''evm_56'', ''0xabc'')],
       mutation_posts = ys @ [MarkAsSpam (JStr ''A1'')]\<rparr>)"
  by (simp add: process_chain_def get_asset_info_def post_asset_infos_def mark_asset_not_spam_def
      post_mutation_def asset_A1_def raise_for_status_def count_success_Some)

lemma live_service_row:
  "process_row (constant_service asset_A1 (Reply 200 None)) EVM_CHAINS False example_row
     \<lparr>total_rows = n, skipped = 0, processed_chains = p, failed_chains = 0,
      by_chain = [''evm_56'' \<mapsto> \<lparr>success = p, failed = 0, not_found = 0\<rparr>]\<rparr>
     \<lparr>asset_infos_posts = xs, mutation_posts = ys\<rparr> =
   (Inr \<lparr>total_rows = n + 1, skipped = 0, processed_chains = p + 1, failed_chains = 0,
         by_chain = [''evm_56'' \<mapsto> \<lparr>success = p + 1, failed = 0, not_found = 0\<rparr>]\<rparr>,
    \<lparr>asset_infos_posts = xs @ [(''evm_56'', ''0xabc'')],
       mutation_posts = ys @ [MarkAsSpam (JStr ''A1'')]\<rparr>)"
  by (simp add: process_row_def cells EVM_CHAINS_def live_service_step)

lemma initial_stats_EVM_CHAINS:
  "initial_stats EVM_CHAINS =
     \<lparr>total_rows = 0, skipped = 0, processed_chains = 0, failed_chains = 0,
      by_chain = [''evm_56'' \<mapsto> \<lparr>success = 0, failed = 0, not_found = 0\<rparr>]\<rparr>"
  by (simp add: initial_stats_def EVM_CHAINS_def zero_chain_stats_def)

lemma live_service_run:
  "process_csv (constant_service asset_A1 (Reply 200 None)) EVM_CHAINS False
     [example_row, blank_address_row, example_row] =
   (Inr \<lparr>total_rows = 2, skipped = 0, processed_chains = 2, failed_chains = 0,
         by_chain = [''evm_56'' \<mapsto> \<lparr>success = 2, failed = 0, not_found = 0\<rparr>]\<rparr>,
    \<lparr>asset_infos_posts = [(''evm_56'', ''0xabc''), (''evm_56'', ''0xabc'')],
       mutation_posts = [MarkAsSpam (JStr ''A1''), MarkAsSpam (JStr ''A1'')]\<rparr>)"
proof -
  have skip: "process_row srv EVM_CHAINS False blank_address_row st tr = (Inr st, tr)" for srv st tr
    by (simp add: process_row_def cells)
  show ?thesis
    using live_service_row [of 0 0 "[]" "[]"]
      live_service_row [of 1 1 "[(''evm_56'', ''0xabc'')]" "[MarkAsSpam (JStr ''A1'')]"]
    by (simp add: process_csv_def initial_stats_EVM_CHAINS no_traffic_def skip numeral_2_eq_2)
qed

theorem run_wide_totals_are_chain_sums_witness:
  "totals_agree EVM_CHAINS (initial_stats EVM_CHAINS)
   \<and> ''evm_56'' \<in> set EVM_CHAINS
   \<and> fst (process_chain (constant_service asset_A1 (Reply 200 None)) False ''0xabc'' ''evm_56''
            (initial_stats EVM_CHAINS) no_traffic) =
       Inr \<lparr>total_rows = 0, skipped = 0, processed_chains = 1, failed_chains = 0,
            by_chain = [''evm_56'' \<mapsto> \<lparr>success = 1, failed = 0, not_found = 0\<rparr>]\<rparr>
   \<and> totals_agree EVM_CHAINS
        \<lparr>total_rows = 0, skipped = 0, processed_chains = 1, failed_chains = 0,
         by_chain = [''evm_56'' \<mapsto> \<lparr>success = 1, failed = 0, not_found = 0\<rparr>]\<rparr>
   \<and> fst (process_row (constant_service asset_A1 (Reply 200 None)) EVM_CHAINS False example_row
            (initial_stats EVM_CHAINS) no_traffic) =
       Inr \<lparr>total_rows = 1, skipped = 0, processed_chains = 1, failed_chains = 0,
            by_chain = [''evm_56'' \<mapsto> \<lparr>success = 1, failed = 0, not_found = 0\<rparr>]\<rparr>
   \<and> totals_agree EVM_CHAINS
        \<lparr>total_rows = 1, skipped = 0, processed_chains = 1, failed_chains = 0,
         by_chain = [''evm_56'' \<mapsto> \<lparr>success = 1, failed = 0, not_found = 0\<rparr>]\<rparr>
   \<and> fst (process_csv (constant_service asset_A1 (Reply 200 None)) EVM_CHAINS False
            [example_row, blank_address_row, example_row]) =
       Inr \<lparr>total_rows = 2, skipped = 0, processed_chains = 2, failed_chains = 0,
            by_chain = [''evm_56'' \<mapsto> \<lparr>success = 2, failed = 0, not_found = 0\<rparr>]\<rparr>
   \<and> totals_agree EVM_CHAINS
        \<lparr>total_rows = 2, skipped = 0, processed_chains = 2, failed_chains = 0,
         by_chain = [''evm_56'' \<mapsto> \<lparr>success = 2, failed = 0, not_found = 0\<rparr>]\<rparr>"
proof -
  let ?srv = "constant_service asset_A1 (Reply 200 None)"
  have chain: "''evm_56'' \<in> set EVM_CHAINS"
    by (simp add: EVM_CHAINS_def)
  have s1: "fst (process_chain ?srv False ''0xabc'' ''evm_56'' (initial_stats EVM_CHAINS) no_traffic) =
       Inr \<lparr>total_rows = 0, skipped = 0, processed_chains = 1, failed_chains = 0,
            by_chain = [''evm_56'' \<mapsto> \<lparr>success = 1, failed = 0, not_found = 0\<rparr>]\<rparr>"
    using live_service_step [of 0 0 "[]" "[]"]
    by (simp add: initial_stats_EVM_CHAINS no_traffic_def)
  have s2: "fst (process_row ?srv EVM_CHAINS False example_row (initial_stats EVM_CHAINS) no_traffic) =
       Inr \<lparr>total_rows = 1, skipped = 0, processed_chains = 1, failed_chains = 0,
            by_chain = [''evm_56'' \<mapsto> \<lparr>success = 1, failed = 0, not_found = 0\<rparr>]\<rparr>"
    using live_service_row [of 0 0 "[]" "[]"]
    by (simp add: initial_stats_EVM_CHAINS no_traffic_def)
  have s3: "fst (process_csv ?srv EVM_CHAINS False [example_row, blank_address_row, example_row]) =
       Inr \<lparr>total_rows = 2, skipped = 0, processed_chains = 2, failed_chains = 0,
            by_chain = [''evm_56'' \<mapsto> \<lparr>success = 2, failed = 0, not_found = 0\<rparr>]\<rparr>"
    by (simp add: live_service_run)
  note t = run_wide_totals_are_chain_sums [where evm_chains = EVM_CHAINS and srv = ?srv
      and dry_run = False and a = "''0xabc''" and chain = "''evm_56''"
      and stats = "initial_stats EVM_CHAINS" and tr = no_traffic and row = example_row
      and rows = "[example_row, blank_address_row, example_row]"
      and after_chain = "\<lparr>total_rows = 0, skipped = 0, processed_chains = 1, failed_chains = 0,
            by_chain = [''evm_56'' \<mapsto> \<lparr>success = 1, failed = 0, not_found = 0\<rparr>]\<rparr>"
      and after_row = "\<lparr>total_rows = 1, skipped = 0, processed_chains = 1, failed_chains = 0,
            by_chain = [''evm_56'' \<mapsto> \<lparr>success = 1, failed = 0, not_found = 0\<rparr>]\<rparr>"
      and at_end = "\<lparr>total_rows = 2, skipped = 0, processed_chains = 2, failed_chains = 0,
            by_chain = [''evm_56'' \<mapsto> \<lparr>success = 2, failed = 0, not_found = 0\<rparr>]\<rparr>"]
  from t chain s1 s2 s3 show ?thesis
    by blast
qed

subsection \<open>Counting outcomes\<close>












text \<open>
  C5. The claim counts Skipped among the outcomes of a pair, and \<^verbatim>\<open>run.py\<close> adds one
  to its skipped counter for every row it skips. The two spam scripts declare
  \<open>skipped\<close>, print it in their summary, and never add to it: a run over one row
  whose address is blank sends nothing and ends with the four counters at their initial
  value 0, so the row's pair with the one configured chain is in none of them, while
  the price script ends the same run with \<open>skipped = 1\<close>.
\<close>

theorem skipped_row_counted_nowhere:
  "row_readable blank_address_row \<and> stripped blank_address_row ''EVM address'' = []
   \<and> process_csv (constant_service asset_A1 (Reply 200 None)) EVM_CHAINS False [blank_address_row] =
       (Inr (initial_stats EVM_CHAINS), no_traffic)
   \<and> skipped (initial_stats EVM_CHAINS) = 0
   \<and> outcomes_total EVM_CHAINS (initial_stats EVM_CHAINS) = 0
   \<and> process_csv_solana (constant_service asset_A1 (Reply 200 None)) False [blank_address_row] =
       (Inr initial_stats_solana, no_traffic)
   \<and> sol_skipped initial_stats_solana = 0
   \<and> outcomes_total_solana initial_stats_solana = 0
   \<and> process_csv_price (constant_service asset_A1 (Reply 200 None)) False [blank_address_row] =
       (Inr \<lparr>successful = 0, failed_rows = 0, skipped_rows = 1, printed = [Skipping_missing]\<rparr>,
        no_traffic)"
  by (simp add: process_csv_def process_row_def process_csv_solana_def process_row_solana_def
      process_csv_price_def process_row_price_def cells initial_stats_EVM_CHAINS
      initial_stats_solana_def outcomes_total_def outcomes_total_solana_def chain_total_def
      chain_counter_def EVM_CHAINS_def initial_stats_def zero_chain_stats_def)

subsection \<open>Runs that reach their end\<close>





















end
